theory Spec2Isabelle
  imports Main
begin

section \<open>Donor side of a tenant migration: migrating_tenant_donor_util.cpp\<close>

text \<open>
  A shallow embedding of \<^verbatim>\<open>src/mongo/db/repl/migrating_tenant_donor_util.cpp\<close>.
  The functions of that file (\<^verbatim>\<open>onTransitionToBlocking\<close>, \<^verbatim>\<open>dataSync\<close>,
  \<^verbatim>\<open>startTenantMigrationBlockOnPrimary\<close>, \<^verbatim>\<open>getTenantMigrationExecutor\<close>,
  \<^verbatim>\<open>onTenantMigrationDonorStateTransition\<close>) are translated statement by statement.
  The classes they call (the access blocker, its registry, the storage layer, the oplog and
  the write-conflict retry loop) live in other files of the repository; each of them is
  modelled from the specification and marked as such.

  Effects are explicit: every function takes the state of the node and returns an
  \<open>outcome\<close>. An \<^verbatim>\<open>invariant(...)\<close> that fails, or \<^verbatim>\<open>MONGO_UNREACHABLE\<close>, ends the
  process: that is \<open>Abort\<close>, which has no state after it. A C++ exception is \<open>Thrown\<close> and
  keeps the state reached when it was thrown.
\<close>

subsection \<open>Data\<close>

type_synonym Timestamp = nat
type_synonym UUID = nat
type_synonym RecordId = nat
type_synonym addr = nat

record OpTime =
  getTimestamp :: Timestamp
  getTerm :: int

text \<open>
  The four enumerants are the ones the \<^verbatim>\<open>switch\<close> of
  \<^verbatim>\<open>onTenantMigrationDonorStateTransition\<close> names. A C++ enumeration can hold any value
  of its underlying type; \<open>kOutOfRange\<close> stands for the values the \<^verbatim>\<open>default\<close> branch
  exists for.
\<close>

datatype TenantMigrationDonorStateEnum =
  kDataSync | kBlocking | kCommitted | kAborted | kOutOfRange nat

text \<open>
  Modelled from the spec: the type \<^verbatim>\<open>TenantMigrationDonorDocument\<close> is generated from an
  interface description that is not part of the sources at hand. The specification gives the
  shape \<^verbatim>\<open>{ id, tenantId, state, blockTimestamp: optional }\<close>; the fields are named
  after the getters the code calls.
\<close>

record TenantMigrationDonorDocument =
  getId :: UUID
  getDatabasePrefix :: string
  getState :: TenantMigrationDonorStateEnum
  getBlockTimestamp :: "Timestamp option"

text \<open>
  Modelled from the spec: serialisation (\<^verbatim>\<open>toBSON\<close>, \<^verbatim>\<open>parse\<close>) is generated code
  that is not part of the sources at hand. The serialised record has the same four fields, so
  a serialised document is identified with the record it stands for.
\<close>

type_synonym BSONObj = TenantMigrationDonorDocument

definition toBSON :: "TenantMigrationDonorDocument \<Rightarrow> BSONObj" where
  "toBSON d = d"

definition parse :: "BSONObj \<Rightarrow> TenantMigrationDonorDocument" where
  "parse obj = obj"

text \<open>
  Modelled from the spec: the essential state of an access blocker is
  \<^verbatim>\<open>writesBlocked: bool\<close> and \<^verbatim>\<open>readsBlockedAfter: Option<LogPosition>\<close>.
\<close>

record MigratingTenantAccessBlocker =
  writesBlocked :: bool
  readsBlockedAfter :: "Timestamp option"

text \<open>
  The options that \<open>getTenantMigrationExecutor\<close> sets; \<open>maxThreads = None\<close> is
  \<^verbatim>\<open>ThreadPool::Options::kUnlimited\<close>.
\<close>

record TaskExecutor =
  threadNamePrefix :: string
  poolName :: string
  netName :: string
  maxThreads :: "nat option"

text \<open>
  Of the operation context, the code asks \<^verbatim>\<open>writesAreReplicated()\<close> only: it holds on a
  primary and not on a node that applies the oplog.
\<close>

record OperationContext =
  writesAreReplicated :: bool

text \<open>The three fields of \<^verbatim>\<open>CollectionUpdateArgs\<close> that \<open>dataSync\<close> sets.\<close>

record CollectionUpdateArgs =
  update :: BSONObj
  criteria :: UUID
  oplogSlot :: "OpTime option"

text \<open>
  Modelled from the spec: an entry of the replicated log is a committed change with the log
  position assigned to it.
\<close>

record OplogEntry =
  entryOpTime :: OpTime
  entryCriteria :: UUID
  entryUpdate :: BSONObj

text \<open>
  The error codes that occur: the one the closure of \<open>dataSync\<close> returns, and the one of
  the exception that \<^verbatim>\<open>writeConflictRetry\<close> catches. The message of a status is left out.
\<close>

datatype ErrorCodes = NamespaceNotFound | WriteConflict

datatype Status = OK | NotOK ErrorCodes

datatype fatal = InvariantFailure string | Unreachable

text \<open>
  The calls made on the collaborators, in the order in which they happen. The trace is a
  ghost field: no function reads it.
\<close>

datatype event =
    EvStartBlockingWrites addr
  | EvStartBlockingReadsAfter addr Timestamp
  | EvAdd string addr
  | EvGetCollection
  | EvFindOne "RecordId option"
  | EvReserve OpTime
  | EvWriteConflict
  | EvUpdate RecordId OpTime
  | EvCommit

text \<open>
  The state of the node. Access blockers are held through \<^verbatim>\<open>std::shared_ptr\<close>: the
  registry and the caller refer to the same object, so blockers live in a store (\<open>heap\<close>)
  and the registry maps a database prefix to an address. \<open>donorsCollection\<close> is the
  collection \<^verbatim>\<open>NamespaceString::kMigrationDonorsNamespace\<close>, \<open>None\<close> when the namespace
  does not exist. \<open>writeConflictAt\<close> is the environment: the \<open>n\<close>-th storage update of
  the node meets a concurrent writer exactly when \<open>writeConflictAt n\<close>.
\<close>

record ServiceState =
  heap :: "addr \<Rightarrow> MigratingTenantAccessBlocker"
  nextAddr :: addr
  mtabByPrefix :: "string \<rightharpoonup> addr"
  donorsCollection :: "(RecordId \<times> BSONObj) list option"
  oplog :: "OplogEntry list"
  nextTimestamp :: Timestamp
  currentTerm :: int
  writeConflictAt :: "nat \<Rightarrow> bool"
  updateAttempts :: nat
  trace :: "event list"

datatype 'a outcome =
    Done 'a ServiceState
  | Thrown ErrorCodes ServiceState
  | Abort fatal

definition andThen ::
  "'a outcome \<Rightarrow> ('a \<Rightarrow> ServiceState \<Rightarrow> 'b outcome) \<Rightarrow> 'b outcome" where
  "andThen r k = (case r of Done x s \<Rightarrow> k x s | Thrown e s \<Rightarrow> Thrown e s | Abort f \<Rightarrow> Abort f)"

definition invariant :: "bool \<Rightarrow> string \<Rightarrow> ServiceState \<Rightarrow> unit outcome" where
  "invariant b expr s = (if b then Done () s else Abort (InvariantFailure expr))"

definition record_event :: "event \<Rightarrow> ServiceState \<Rightarrow> ServiceState" where
  "record_event ev s = s\<lparr>trace := trace s @ [ev]\<rparr>"

subsection \<open>The access blocker and its registry\<close>

text \<open>
  Modelled from the spec: a new access blocker blocks nothing. The executor it is given is
  used for asynchronous work only and is no part of its essential state.
\<close>

definition newMigratingTenantAccessBlocker :: "TaskExecutor \<Rightarrow> MigratingTenantAccessBlocker" where
  "newMigratingTenantAccessBlocker executor = \<lparr>writesBlocked = False, readsBlockedAfter = None\<rparr>"

text \<open>\<^verbatim>\<open>std::make_shared\<close>: the object is placed at an address not handed out before.\<close>

definition make_shared :: "MigratingTenantAccessBlocker \<Rightarrow> ServiceState \<Rightarrow> addr \<times> ServiceState" where
  "make_shared b s = (nextAddr s, s\<lparr>heap := (heap s)(nextAddr s := b), nextAddr := Suc (nextAddr s)\<rparr>)"

text \<open>
  Modelled from the spec: \<^verbatim>\<open>startBlockingWrites()\<close> sets \<^verbatim>\<open>writesBlocked = true\<close>;
  its precondition is that reads are not blocked yet, and calling it out of order is a
  programming error.
\<close>

definition startBlockingWrites :: "addr \<Rightarrow> ServiceState \<Rightarrow> unit outcome" where
  "startBlockingWrites mtab s =
     (if readsBlockedAfter (heap s mtab) \<noteq> None
      then Abort (InvariantFailure ''startBlockingWrites: reads are blocked already'')
      else Done ()
        (record_event (EvStartBlockingWrites mtab)
          (s\<lparr>heap := (heap s)(mtab := (heap s mtab)\<lparr>writesBlocked := True\<rparr>)\<rparr>)))"

text \<open>
  Modelled from the spec: \<^verbatim>\<open>startBlockingReadsAfter(position)\<close> sets
  \<^verbatim>\<open>readsBlockedAfter = Some(position)\<close>; its precondition is \<^verbatim>\<open>writesBlocked == true\<close>.
\<close>

definition startBlockingReadsAfter :: "addr \<Rightarrow> Timestamp \<Rightarrow> ServiceState \<Rightarrow> unit outcome" where
  "startBlockingReadsAfter mtab position s =
     (if \<not> writesBlocked (heap s mtab)
      then Abort (InvariantFailure ''startBlockingReadsAfter: writes are not blocked'')
      else Done ()
        (record_event (EvStartBlockingReadsAfter mtab position)
          (s\<lparr>heap := (heap s)(mtab := (heap s mtab)\<lparr>readsBlockedAfter := Some position\<rparr>)\<rparr>)))"

text \<open>Modelled from the spec: the two queries of an access blocker.\<close>

definition isBlockingWrites :: "MigratingTenantAccessBlocker \<Rightarrow> bool" where
  "isBlockingWrites b = writesBlocked b"

definition blockedReadPosition :: "MigratingTenantAccessBlocker \<Rightarrow> Timestamp option" where
  "blockedReadPosition b = readsBlockedAfter b"

text \<open>
  Modelled from the spec: \<^verbatim>\<open>get(tenantId)\<close> is a lookup, absence means that no migration
  blocks the tenant.
\<close>

definition getMigratingTenantBlocker :: "string \<Rightarrow> ServiceState \<Rightarrow> addr option" where
  "getMigratingTenantBlocker dbPrefix s = mtabByPrefix s dbPrefix"

text \<open>
  Modelled from the spec: \<^verbatim>\<open>add(tenantId, blocker)\<close> fails with an invariant violation
  if the tenant has an entry already.
\<close>

definition mtabByPrefix_add :: "string \<Rightarrow> addr \<Rightarrow> ServiceState \<Rightarrow> unit outcome" where
  "mtabByPrefix_add dbPrefix mtab s =
     (if mtabByPrefix s dbPrefix \<noteq> None
      then Abort (InvariantFailure ''add: the tenant has an access blocker already'')
      else Done ()
        (record_event (EvAdd dbPrefix mtab)
          (s\<lparr>mtabByPrefix := (mtabByPrefix s)(dbPrefix \<mapsto> mtab)\<rparr>)))"

text \<open>The access blocker a tenant has, as the read and write paths see it.\<close>

definition blockerOf :: "ServiceState \<Rightarrow> string \<Rightarrow> MigratingTenantAccessBlocker option" where
  "blockerOf s dbPrefix = map_option (heap s) (getMigratingTenantBlocker dbPrefix s)"

subsection \<open>The executor\<close>

definition kThreadNamePrefix :: string where
  "kThreadNamePrefix = ''TenantMigrationWorker-''"

definition kPoolName :: string where
  "kPoolName = ''TenantMigrationWorkerThreadPool''"

definition kNetName :: string where
  "kNetName = ''TenantMigrationWorkerNetwork''"

definition getTenantMigrationExecutor :: TaskExecutor where
  "getTenantMigrationExecutor =
     \<lparr>threadNamePrefix = kThreadNamePrefix, poolName = kPoolName, netName = kNetName,
      maxThreads = None\<rparr>"

subsection \<open>The op observer\<close>

definition onTransitionToBlocking ::
  "OperationContext \<Rightarrow> TenantMigrationDonorDocument \<Rightarrow> ServiceState \<Rightarrow> unit outcome" where
  "onTransitionToBlocking opCtx donorDoc s =
     andThen (invariant (getState donorDoc = kBlocking)
                ''donorDoc.getState() == TenantMigrationDonorStateEnum::kBlocking'' s) (\<lambda>_ s.
     case getBlockTimestamp donorDoc of
       None \<Rightarrow> Abort (InvariantFailure ''donorDoc.getBlockTimestamp()'')
     | Some blockTimestamp \<Rightarrow>
         andThen
           (case getMigratingTenantBlocker (getDatabasePrefix donorDoc) s of mtab \<Rightarrow>
              if \<not> writesAreReplicated opCtx then
                andThen (invariant (mtab = None) ''!mtab'' s) (\<lambda>_ s.
                case make_shared (newMigratingTenantAccessBlocker getTenantMigrationExecutor) s of
                  (mtab, s) \<Rightarrow>
                    andThen (mtabByPrefix_add (getDatabasePrefix donorDoc) mtab s) (\<lambda>_ s.
                    andThen (startBlockingWrites mtab s) (\<lambda>_ s.
                    Done (Some mtab) s)))
              else Done mtab s) (\<lambda>mtab s.
         case mtab of
           None \<Rightarrow> Abort (InvariantFailure ''mtab'')
         | Some mtab \<Rightarrow> startBlockingReadsAfter mtab blockTimestamp s))"

definition onTenantMigrationDonorStateTransition ::
  "OperationContext \<Rightarrow> BSONObj \<Rightarrow> ServiceState \<Rightarrow> unit outcome" where
  "onTenantMigrationDonorStateTransition opCtx doc s =
     (let donorDoc = parse doc in
      case getState donorDoc of
        kDataSync \<Rightarrow> Done () s
      | kBlocking \<Rightarrow> onTransitionToBlocking opCtx donorDoc s
      | kCommitted \<Rightarrow> Done () s
      | kAborted \<Rightarrow> Done () s
      | kOutOfRange _ \<Rightarrow> Abort Unreachable)"

subsection \<open>Storage, the oplog and the write-conflict retry loop\<close>

text \<open>
  Modelled from the spec: \<^verbatim>\<open>AutoGetCollection\<close> belongs to the storage layer, which is not
  part of the sources at hand. It yields the collection, or nothing when the namespace is
  absent.
\<close>

definition getCollection :: "ServiceState \<Rightarrow> (RecordId \<times> BSONObj) list option \<times> ServiceState" where
  "getCollection s = (donorsCollection s, record_event EvGetCollection s)"

text \<open>
  Modelled from the spec: \<^verbatim>\<open>Helpers::findOne\<close> is the find-one-by-content primitive of the
  storage layer: the id of the first record whose content is the query document, the null id
  (\<open>None\<close>) when there is none.
\<close>

fun findOne :: "(RecordId \<times> BSONObj) list \<Rightarrow> BSONObj \<Rightarrow> RecordId option" where
  "findOne [] query = None"
| "findOne ((rid, d) # rest) query = (if d = query then Some rid else findOne rest query)"

text \<open>The same, as a step of the program: the call is recorded in the trace.\<close>

definition Helpers_findOne ::
  "(RecordId \<times> BSONObj) list \<Rightarrow> BSONObj \<Rightarrow> ServiceState \<Rightarrow> RecordId option \<times> ServiceState" where
  "Helpers_findOne collection query s =
     (findOne collection query, record_event (EvFindOne (findOne collection query)) s)"

text \<open>
  Modelled from the spec: \<^verbatim>\<open>getNextOpTimes(opCtx, n)\<close> is the log-position source, which
  reserves the next \<open>n\<close> positions: they are unique and increasing.
\<close>

fun nextOpTimes :: "nat \<Rightarrow> Timestamp \<Rightarrow> int \<Rightarrow> OpTime list" where
  "nextOpTimes 0 t tm = []"
| "nextOpTimes (Suc n) t tm = \<lparr>getTimestamp = t, getTerm = tm\<rparr> # nextOpTimes n (Suc t) tm"

definition getNextOpTimes :: "nat \<Rightarrow> ServiceState \<Rightarrow> OpTime list \<times> ServiceState" where
  "getNextOpTimes n s =
     (nextOpTimes n (nextTimestamp s) (currentTerm s),
      s\<lparr>nextTimestamp := nextTimestamp s + n,
        trace := trace s @ map EvReserve (nextOpTimes n (nextTimestamp s) (currentTerm s))\<rparr>)"

text \<open>Replacing the content of the record with a given id.\<close>

definition updateRecord ::
  "(RecordId \<times> BSONObj) list \<Rightarrow> RecordId \<Rightarrow> BSONObj \<Rightarrow> (RecordId \<times> BSONObj) list" where
  "updateRecord collection rid newDoc =
     map (\<lambda>(r, d). if r = rid then (r, newDoc) else (r, d)) collection"

text \<open>
  Modelled from the spec: \<^verbatim>\<open>Collection::updateDocument\<close> is the
  update-with-reserved-log-position primitive of the storage layer. A concurrent writer makes
  it throw a write conflict before it has changed anything. Otherwise it replaces the
  record, writes the oplog entry of the update at the position handed in
  (\<^verbatim>\<open>args.oplogSlot\<close>; a position of its own when none is handed in), and calls the op
  observer of the donors collection, \<open>onTenantMigrationDonorStateTransition\<close>, with the
  updated document: both primaries and secondaries go through the op observer.
\<close>

definition updateDocument ::
  "OperationContext \<Rightarrow> RecordId \<Rightarrow> BSONObj \<Rightarrow> BSONObj \<Rightarrow> CollectionUpdateArgs \<Rightarrow>
   ServiceState \<Rightarrow> unit outcome" where
  "updateDocument opCtx rid oldDoc newDoc args s =
     (if writeConflictAt s (updateAttempts s)
      then Thrown WriteConflict
             (record_event EvWriteConflict (s\<lparr>updateAttempts := Suc (updateAttempts s)\<rparr>))
      else
        case (case oplogSlot args of
                Some slot \<Rightarrow> (slot, s)
              | None \<Rightarrow> (case getNextOpTimes (Suc 0) s of (slots, s) \<Rightarrow> (hd slots, s))) of
          (slot, s) \<Rightarrow>
            onTenantMigrationDonorStateTransition opCtx newDoc
              (record_event (EvUpdate rid slot)
                (s\<lparr>updateAttempts := Suc (updateAttempts s),
                   donorsCollection :=
                     map_option (\<lambda>c. updateRecord c rid newDoc) (donorsCollection s),
                   oplog := oplog s @
                     [\<lparr>entryOpTime = slot, entryCriteria = criteria args,
                       entryUpdate = update args\<rparr>]\<rparr>)))"

text \<open>
  Modelled from the spec: a \<^verbatim>\<open>WriteUnitOfWork\<close> commits all the storage effects of its
  body or none of them. \<open>s0\<close> is the state in which the unit of work was opened; when the
  body throws, the collection and the oplog are as they were then. Effects outside storage
  (the access blockers, the positions handed out) are not undone.
\<close>

definition writeUnitOfWork :: "ServiceState \<Rightarrow> 'a outcome \<Rightarrow> 'a outcome" where
  "writeUnitOfWork s0 body =
     (case body of
        Done x s \<Rightarrow> Done x (record_event EvCommit s)
      | Thrown e s \<Rightarrow> Thrown e (s\<lparr>donorsCollection := donorsCollection s0, oplog := oplog s0\<rparr>)
      | Abort f \<Rightarrow> Abort f)"

text \<open>
  Modelled from the spec: \<^verbatim>\<open>writeConflictRetry\<close> runs the operation again, from its start,
  for as long as it ends in a write conflict; any other result is the result of the loop.
  The loop has no bound, so it is a partial function: \<open>None\<close> means that it never returns.
\<close>

partial_function (option) writeConflictRetry ::
  "(ServiceState \<Rightarrow> 'a outcome) \<Rightarrow> ServiceState \<Rightarrow> 'a outcome option" where
  "writeConflictRetry f s =
     (case f s of
        Done x s' \<Rightarrow> Some (Done x s')
      | Thrown e s' \<Rightarrow>
          if e = WriteConflict then writeConflictRetry f s' else Some (Thrown e s')
      | Abort r \<Rightarrow> Some (Abort r))"

declare writeConflictRetry.simps [code]

text \<open>Modelled from the spec: \<^verbatim>\<open>uassertStatusOK\<close> throws a status that is not OK.\<close>

definition uassertStatusOK :: "Status outcome \<Rightarrow> unit outcome" where
  "uassertStatusOK r =
     (case r of
        Done OK s \<Rightarrow> Done () s
      | Done (NotOK e) s \<Rightarrow> Thrown e s
      | Thrown e s \<Rightarrow> Thrown e s
      | Abort f \<Rightarrow> Abort f)"

subsection \<open>The transition from data sync to blocking, on the primary\<close>

definition startTenantMigrationBlockOnPrimary ::
  "OperationContext \<Rightarrow> TenantMigrationDonorDocument \<Rightarrow> ServiceState \<Rightarrow> unit outcome" where
  "startTenantMigrationBlockOnPrimary opCtx donorDoc s =
     andThen (invariant (getState donorDoc = kDataSync)
                ''donorDoc.getState() == TenantMigrationDonorStateEnum::kDataSync'' s) (\<lambda>_ s.
     case make_shared (newMigratingTenantAccessBlocker getTenantMigrationExecutor) s of
       (mtab, s) \<Rightarrow>
         andThen (startBlockingWrites mtab s) (\<lambda>_ s.
         mtabByPrefix_add (getDatabasePrefix donorDoc) mtab s))"

text \<open>The document that \<open>dataSync\<close> builds with the four setters.\<close>

definition updatedDoc :: "TenantMigrationDonorDocument \<Rightarrow> OpTime \<Rightarrow> TenantMigrationDonorDocument" where
  "updatedDoc originalDoc slot =
     \<lparr>getId = getId originalDoc,
      getDatabasePrefix = getDatabasePrefix originalDoc,
      getState = kBlocking,
      getBlockTimestamp = Some (getTimestamp slot)\<rparr>"

text \<open>
  The closure that \<open>dataSync\<close> hands to \<open>writeConflictRetry\<close>. The vector that
  \<^verbatim>\<open>getNextOpTimes(opCtx, 1U)\<close> returns has one element, which \<^verbatim>\<open>[0]\<close> takes.
\<close>

definition doStartBlockingWrite ::
  "OperationContext \<Rightarrow> TenantMigrationDonorDocument \<Rightarrow> ServiceState \<Rightarrow> Status outcome" where
  "doStartBlockingWrite opCtx originalDoc s =
     (case getCollection s of
        (None, s) \<Rightarrow> Done (NotOK NamespaceNotFound) s
      | (Some collection, s) \<Rightarrow>
          writeUnitOfWork s
            (case Helpers_findOne collection (toBSON originalDoc) s of
               (None, s) \<Rightarrow> Abort (InvariantFailure ''!originalRecordId.isNull()'')
             | (Some originalRecordId, s) \<Rightarrow>
                 (case getNextOpTimes (Suc 0) s of
                    (slots, s) \<Rightarrow>
                      (case slots of
                         [] \<Rightarrow> Abort (InvariantFailure ''getNextOpTimes(opCtx, 1U)[0]'')
                       | slot # _ \<Rightarrow>
                           andThen
                             (updateDocument opCtx originalRecordId (toBSON originalDoc)
                                (toBSON (updatedDoc originalDoc slot))
                                \<lparr>update = toBSON (updatedDoc originalDoc slot),
                                 criteria = getId originalDoc,
                                 oplogSlot = Some slot\<rparr> s)
                             (\<lambda>_ s. Done OK s)))))"

definition dataSync ::
  "OperationContext \<Rightarrow> TenantMigrationDonorDocument \<Rightarrow> ServiceState \<Rightarrow> unit outcome option" where
  "dataSync opCtx originalDoc s =
     (case startTenantMigrationBlockOnPrimary opCtx originalDoc s of
        Done _ s \<Rightarrow>
          (case invariant (getState originalDoc = kDataSync)
                  ''originalDoc.getState() == TenantMigrationDonorStateEnum::kDataSync'' s of
             Done _ s \<Rightarrow>
               map_option uassertStatusOK
                 (writeConflictRetry (doStartBlockingWrite opCtx originalDoc) s)
           | Thrown e s \<Rightarrow> Some (Thrown e s)
           | Abort f \<Rightarrow> Some (Abort f))
      | Thrown e s \<Rightarrow> Some (Thrown e s)
      | Abort f \<Rightarrow> Some (Abort f))"

subsection \<open>The states that the steps of \<open>dataSync\<close> lead to\<close>

text \<open>
  These definitions are not code of the program. They name the state after each step, so
  that the theorems can say what a run has done.
\<close>

text \<open>The state after \<open>startTenantMigrationBlockOnPrimary\<close> has registered a new blocker.\<close>

definition afterBlock :: "string \<Rightarrow> ServiceState \<Rightarrow> ServiceState" where
  "afterBlock dbPrefix s =
     s\<lparr>heap := (heap s)(nextAddr s := \<lparr>writesBlocked = True, readsBlockedAfter = None\<rparr>),
       nextAddr := Suc (nextAddr s),
       mtabByPrefix := (mtabByPrefix s)(dbPrefix \<mapsto> nextAddr s),
       trace := trace s @ [EvStartBlockingWrites (nextAddr s), EvAdd dbPrefix (nextAddr s)]\<rparr>"

text \<open>The position that the next reservation hands out.\<close>

definition reservedSlot :: "ServiceState \<Rightarrow> OpTime" where
  "reservedSlot s = \<lparr>getTimestamp = nextTimestamp s, getTerm = currentTerm s\<rparr>"

text \<open>The state after a run of the closure that ended in a write conflict.\<close>

definition afterConflict :: "RecordId \<Rightarrow> ServiceState \<Rightarrow> ServiceState" where
  "afterConflict rid s =
     s\<lparr>nextTimestamp := Suc (nextTimestamp s),
       updateAttempts := Suc (updateAttempts s),
       trace := trace s @
         [EvGetCollection, EvFindOne (Some rid), EvReserve (reservedSlot s), EvWriteConflict]\<rparr>"

fun afterConflicts :: "RecordId \<Rightarrow> nat \<Rightarrow> ServiceState \<Rightarrow> ServiceState" where
  "afterConflicts rid 0 s = s"
| "afterConflicts rid (Suc k) s = afterConflicts rid k (afterConflict rid s)"

text \<open>The calls of \<open>k\<close> runs of the closure that ended in a write conflict.\<close>

fun conflictEvents :: "RecordId \<Rightarrow> Timestamp \<Rightarrow> int \<Rightarrow> nat \<Rightarrow> event list" where
  "conflictEvents rid t tm 0 = []"
| "conflictEvents rid t tm (Suc k) =
     [EvGetCollection, EvFindOne (Some rid),
      EvReserve \<lparr>getTimestamp = t, getTerm = tm\<rparr>, EvWriteConflict] @
     conflictEvents rid (Suc t) tm k"


text \<open>The state after a run of the closure that committed, on a primary.\<close>

definition afterCommit ::
  "TenantMigrationDonorDocument \<Rightarrow> RecordId \<Rightarrow> addr \<Rightarrow> ServiceState \<Rightarrow> ServiceState" where
  "afterCommit originalDoc rid mtab s =
     s\<lparr>heap := (heap s)(mtab := (heap s mtab)\<lparr>readsBlockedAfter := Some (nextTimestamp s)\<rparr>),
       donorsCollection :=
         map_option (\<lambda>c. updateRecord c rid (updatedDoc originalDoc (reservedSlot s)))
           (donorsCollection s),
       oplog := oplog s @
         [\<lparr>entryOpTime = reservedSlot s, entryCriteria = getId originalDoc,
           entryUpdate = updatedDoc originalDoc (reservedSlot s)\<rparr>],
       nextTimestamp := Suc (nextTimestamp s),
       updateAttempts := Suc (updateAttempts s),
       trace := trace s @
         [EvGetCollection, EvFindOne (Some rid), EvReserve (reservedSlot s),
          EvUpdate rid (reservedSlot s),
          EvStartBlockingReadsAfter mtab (nextTimestamp s), EvCommit]\<rparr>"

text \<open>The content of a record of the donors collection.\<close>

definition recordAt :: "ServiceState \<Rightarrow> RecordId \<Rightarrow> BSONObj option" where
  "recordAt s rid = (case donorsCollection s of None \<Rightarrow> None | Some c \<Rightarrow> map_of c rid)"

text \<open>Which calls of a trace are of a given kind.\<close>

fun isReadsAfter :: "event \<Rightarrow> bool" where
  "isReadsAfter (EvStartBlockingReadsAfter mtab position) = True"
| "isReadsAfter ev = False"

fun isReserve :: "event \<Rightarrow> bool" where
  "isReserve (EvReserve slot) = True"
| "isReserve ev = False"



fun isAbort :: "'a outcome \<Rightarrow> bool" where
  "isAbort (Abort f) = True"
| "isAbort r = False"

subsection \<open>A node and a tenant to run the program on\<close>

definition primaryCtx :: OperationContext where
  "primaryCtx = \<lparr>writesAreReplicated = True\<rparr>"

definition replicaCtx :: OperationContext where
  "replicaCtx = \<lparr>writesAreReplicated = False\<rparr>"

definition t1DataSync :: TenantMigrationDonorDocument where
  "t1DataSync =
     \<lparr>getId = 7, getDatabasePrefix = ''t1'', getState = kDataSync, getBlockTimestamp = None\<rparr>"

definition t1Blocking :: TenantMigrationDonorDocument where
  "t1Blocking =
     \<lparr>getId = 7, getDatabasePrefix = ''t1'', getState = kBlocking, getBlockTimestamp = Some 100\<rparr>"

definition t1BlockingNoTimestamp :: TenantMigrationDonorDocument where
  "t1BlockingNoTimestamp =
     \<lparr>getId = 7, getDatabasePrefix = ''t1'', getState = kBlocking, getBlockTimestamp = None\<rparr>"

definition t1Committed :: TenantMigrationDonorDocument where
  "t1Committed =
     \<lparr>getId = 7, getDatabasePrefix = ''t1'', getState = kCommitted, getBlockTimestamp = Some 100\<rparr>"

text \<open>
  A node with no access blocker, the record of \<open>t1\<close> in the donors collection, and no
  concurrent writer.
\<close>

definition quietNode :: ServiceState where
  "quietNode =
     \<lparr>heap = (\<lambda>a. \<lparr>writesBlocked = False, readsBlockedAfter = None\<rparr>),
      nextAddr = 0,
      mtabByPrefix = Map.empty,
      donorsCollection = Some [(1, toBSON t1DataSync)],
      oplog = [],
      nextTimestamp = 100,
      currentTerm = 1,
      writeConflictAt = (\<lambda>n. False),
      updateAttempts = 0,
      trace = []\<rparr>"

text \<open>The same node, where the first storage update meets a concurrent writer.\<close>

definition busyNode :: ServiceState where
  "busyNode = quietNode\<lparr>writeConflictAt := (\<lambda>n. n = 0)\<rparr>"

text \<open>The same node without the donors collection.\<close>

definition bareNode :: ServiceState where
  "bareNode = quietNode\<lparr>donorsCollection := None\<rparr>"

section \<open>Properties\<close>

subsection \<open>Single steps\<close>

lemmas blocker_defs =
  andThen_def invariant_def record_event_def make_shared_def startBlockingWrites_def
  startBlockingReadsAfter_def getMigratingTenantBlocker_def mtabByPrefix_add_def
  newMigratingTenantAccessBlocker_def parse_def toBSON_def

lemmas storage_defs =
  getCollection_def Helpers_findOne_def getNextOpTimes_def updateDocument_def
  writeUnitOfWork_def updatedDoc_def onTenantMigrationDonorStateTransition_def
  onTransitionToBlocking_def reservedSlot_def Let_def

lemmas example_defs =
  primaryCtx_def replicaCtx_def t1DataSync_def t1Blocking_def t1BlockingNoTimestamp_def
  t1Committed_def quietNode_def busyNode_def bareNode_def

lemma block_on_primary:
  "startTenantMigrationBlockOnPrimary opCtx donorDoc s =
     (if getState donorDoc \<noteq> kDataSync
      then Abort (InvariantFailure
             ''donorDoc.getState() == TenantMigrationDonorStateEnum::kDataSync'')
      else if mtabByPrefix s (getDatabasePrefix donorDoc) \<noteq> None
      then Abort (InvariantFailure ''add: the tenant has an access blocker already'')
      else Done () (afterBlock (getDatabasePrefix donorDoc) s))"
  by (simp add: startTenantMigrationBlockOnPrimary_def blocker_defs afterBlock_def)

lemma closure_no_collection:
  "donorsCollection s = None \<Longrightarrow>
   doStartBlockingWrite opCtx originalDoc s =
     Done (NotOK NamespaceNotFound) (record_event EvGetCollection s)"
  by (simp add: doStartBlockingWrite_def getCollection_def)

lemma closure_no_record:
  "donorsCollection s = Some c \<Longrightarrow> findOne c (toBSON originalDoc) = None \<Longrightarrow>
   doStartBlockingWrite opCtx originalDoc s =
     Abort (InvariantFailure ''!originalRecordId.isNull()'')"
  by (simp add: doStartBlockingWrite_def getCollection_def Helpers_findOne_def
        writeUnitOfWork_def)

lemma closure_conflict:
  "donorsCollection s = Some c \<Longrightarrow> findOne c (toBSON originalDoc) = Some rid \<Longrightarrow>
   writeConflictAt s (updateAttempts s) \<Longrightarrow>
   doStartBlockingWrite opCtx originalDoc s = Thrown WriteConflict (afterConflict rid s)"
  by (simp add: doStartBlockingWrite_def storage_defs blocker_defs afterConflict_def)

lemma closure_commit:
  "donorsCollection s = Some c \<Longrightarrow> findOne c (toBSON originalDoc) = Some rid \<Longrightarrow>
   \<not> writeConflictAt s (updateAttempts s) \<Longrightarrow> writesAreReplicated opCtx \<Longrightarrow>
   mtabByPrefix s (getDatabasePrefix originalDoc) = Some mtab \<Longrightarrow>
   writesBlocked (heap s mtab) \<Longrightarrow>
   doStartBlockingWrite opCtx originalDoc s = Done OK (afterCommit originalDoc rid mtab s)"
  by (simp add: doStartBlockingWrite_def storage_defs blocker_defs afterCommit_def)

lemma closure_replica:
  "donorsCollection s = Some c \<Longrightarrow> findOne c (toBSON originalDoc) = Some rid \<Longrightarrow>
   \<not> writeConflictAt s (updateAttempts s) \<Longrightarrow> \<not> writesAreReplicated opCtx \<Longrightarrow>
   mtabByPrefix s (getDatabasePrefix originalDoc) = Some mtab \<Longrightarrow>
   doStartBlockingWrite opCtx originalDoc s = Abort (InvariantFailure ''!mtab'')"
  by (simp add: doStartBlockingWrite_def storage_defs blocker_defs)



lemma afterBlock_fields [simp]:
  "heap (afterBlock p s) = (heap s)(nextAddr s := \<lparr>writesBlocked = True, readsBlockedAfter = None\<rparr>)"
  "nextAddr (afterBlock p s) = Suc (nextAddr s)"
  "mtabByPrefix (afterBlock p s) = (mtabByPrefix s)(p \<mapsto> nextAddr s)"
  "donorsCollection (afterBlock p s) = donorsCollection s"
  "oplog (afterBlock p s) = oplog s"
  "nextTimestamp (afterBlock p s) = nextTimestamp s"
  "currentTerm (afterBlock p s) = currentTerm s"
  "writeConflictAt (afterBlock p s) = writeConflictAt s"
  "updateAttempts (afterBlock p s) = updateAttempts s"
  "trace (afterBlock p s) = trace s @ [EvStartBlockingWrites (nextAddr s), EvAdd p (nextAddr s)]"
  by (simp_all add: afterBlock_def)

lemma afterConflict_fields [simp]:
  "heap (afterConflict rid s) = heap s"
  "nextAddr (afterConflict rid s) = nextAddr s"
  "mtabByPrefix (afterConflict rid s) = mtabByPrefix s"
  "donorsCollection (afterConflict rid s) = donorsCollection s"
  "oplog (afterConflict rid s) = oplog s"
  "nextTimestamp (afterConflict rid s) = Suc (nextTimestamp s)"
  "currentTerm (afterConflict rid s) = currentTerm s"
  "writeConflictAt (afterConflict rid s) = writeConflictAt s"
  "updateAttempts (afterConflict rid s) = Suc (updateAttempts s)"
  by (simp_all add: afterConflict_def)

lemma afterConflicts_fields [simp]:
  "heap (afterConflicts rid k s) = heap s"
  "nextAddr (afterConflicts rid k s) = nextAddr s"
  "mtabByPrefix (afterConflicts rid k s) = mtabByPrefix s"
  "donorsCollection (afterConflicts rid k s) = donorsCollection s"
  "oplog (afterConflicts rid k s) = oplog s"
  "nextTimestamp (afterConflicts rid k s) = nextTimestamp s + k"
  "currentTerm (afterConflicts rid k s) = currentTerm s"
  "writeConflictAt (afterConflicts rid k s) = writeConflictAt s"
  "updateAttempts (afterConflicts rid k s) = updateAttempts s + k"
  by (induction k arbitrary: s) simp_all

lemma afterConflicts_trace:
  "trace (afterConflicts rid k s) =
     trace s @ conflictEvents rid (nextTimestamp s) (currentTerm s) k"
  by (induction k arbitrary: s) (simp_all add: afterConflict_def reservedSlot_def)

lemma afterCommit_fields [simp]:
  "heap (afterCommit d rid a s) =
     (heap s)(a := (heap s a)\<lparr>readsBlockedAfter := Some (nextTimestamp s)\<rparr>)"
  "nextAddr (afterCommit d rid a s) = nextAddr s"
  "mtabByPrefix (afterCommit d rid a s) = mtabByPrefix s"
  "donorsCollection (afterCommit d rid a s) =
     map_option (\<lambda>c. updateRecord c rid (updatedDoc d (reservedSlot s))) (donorsCollection s)"
  "oplog (afterCommit d rid a s) = oplog s @
     [\<lparr>entryOpTime = reservedSlot s, entryCriteria = getId d,
       entryUpdate = updatedDoc d (reservedSlot s)\<rparr>]"
  "nextTimestamp (afterCommit d rid a s) = Suc (nextTimestamp s)"
  "currentTerm (afterCommit d rid a s) = currentTerm s"
  "writeConflictAt (afterCommit d rid a s) = writeConflictAt s"
  "updateAttempts (afterCommit d rid a s) = Suc (updateAttempts s)"
  "trace (afterCommit d rid a s) = trace s @
     [EvGetCollection, EvFindOne (Some rid), EvReserve (reservedSlot s),
      EvUpdate rid (reservedSlot s), EvStartBlockingReadsAfter a (nextTimestamp s), EvCommit]"
  by (simp_all add: afterCommit_def)

lemma findOne_in_collection:
  "findOne c query = Some rid \<Longrightarrow> rid \<in> fst ` set c"
  by (induction c query rule: findOne.induct) (auto split: if_splits)

lemma map_of_updateRecord:
  "rid \<in> fst ` set c \<Longrightarrow> map_of (updateRecord c rid d) rid = Some d"
  by (induction c) (auto simp add: updateRecord_def)

lemma conflictEvents_no_readsAfter:
  "filter isReadsAfter (conflictEvents rid t tm k) = []"
  by (induction k arbitrary: t) simp_all

subsection \<open>Single runs of the closure\<close>








subsection \<open>The retry loop\<close>

lemma retry_step:
  "f s = Thrown WriteConflict s' \<Longrightarrow> writeConflictRetry f s = writeConflictRetry f s'"
  by (subst writeConflictRetry.simps) simp

lemma retry_done:
  "f s = Done x s' \<Longrightarrow> writeConflictRetry f s = Some (Done x s')"
  by (subst writeConflictRetry.simps) simp

lemma retry_abort:
  "f s = Abort r \<Longrightarrow> writeConflictRetry f s = Some (Abort r)"
  by (subst writeConflictRetry.simps) simp

lemma retry_conflicts:
  assumes "donorsCollection s = Some c"
    and "findOne c (toBSON originalDoc) = Some rid"
    and "\<forall>i<k. writeConflictAt s (updateAttempts s + i)"
  shows "writeConflictRetry (doStartBlockingWrite opCtx originalDoc) s =
         writeConflictRetry (doStartBlockingWrite opCtx originalDoc) (afterConflicts rid k s)"
  using assms
proof (induction k arbitrary: s)
  case 0
  show ?case by simp
next
  case (Suc k)
  from Suc.prems(3) have now: "writeConflictAt s (updateAttempts s)"
    by auto
  have later: "\<forall>i<k. writeConflictAt (afterConflict rid s) (updateAttempts (afterConflict rid s) + i)"
    using Suc.prems(3) by auto
  have "writeConflictRetry (doStartBlockingWrite opCtx originalDoc) s =
        writeConflictRetry (doStartBlockingWrite opCtx originalDoc) (afterConflict rid s)"
    using Suc.prems(1,2) now by (intro retry_step closure_conflict)
  also have "\<dots> = writeConflictRetry (doStartBlockingWrite opCtx originalDoc)
                     (afterConflicts rid k (afterConflict rid s))"
    using Suc.prems(1,2) later by (intro Suc.IH) simp_all
  finally show ?case by simp
qed

text \<open>
  When the loop returns, the conflicts have come to an end. The proof is by the induction
  rule of the partial function, on the unfolding of the loop.
\<close>

lemma retry_returns_no_endless_conflict_aux:
  assumes ret: "writeConflictRetry f s = Some y"
    and rid: "findOne c (toBSON originalDoc) = Some rid"
  shows "f = doStartBlockingWrite opCtx originalDoc \<longrightarrow> donorsCollection s = Some c \<longrightarrow>
         (\<exists>i. \<not> writeConflictAt s (updateAttempts s + i))"
proof (rule writeConflictRetry.raw_induct
    [where P = "\<lambda>f s y. f = doStartBlockingWrite opCtx originalDoc \<longrightarrow>
       donorsCollection s = Some c \<longrightarrow> (\<exists>i. \<not> writeConflictAt s (updateAttempts s + i))",
     OF _ ret], intro impI)
  fix retry :: "(ServiceState \<Rightarrow> Status outcome) \<Rightarrow> ServiceState \<Rightarrow> Status outcome option"
    and f s y
  assume IH: "\<And>f s y. retry f s = Some y \<Longrightarrow>
      f = doStartBlockingWrite opCtx originalDoc \<longrightarrow> donorsCollection s = Some c \<longrightarrow>
      (\<exists>i. \<not> writeConflictAt s (updateAttempts s + i))"
    and unfolded: "(case f s of
          Done x s' \<Rightarrow> Some (Done x s')
        | Thrown e s' \<Rightarrow> if e = WriteConflict then retry f s' else Some (Thrown e s')
        | Abort r \<Rightarrow> Some (Abort r)) = Some y"
    and f: "f = doStartBlockingWrite opCtx originalDoc"
    and c: "donorsCollection s = Some c"
  show "\<exists>i. \<not> writeConflictAt s (updateAttempts s + i)"
  proof (cases "writeConflictAt s (updateAttempts s)")
    case False
    then have "\<not> writeConflictAt s (updateAttempts s + 0)" by simp
    then show ?thesis by blast
  next
    case True
    then have "f s = Thrown WriteConflict (afterConflict rid s)"
      using f c rid by (simp add: closure_conflict)
    with unfolded have "retry f (afterConflict rid s) = Some y"
      by simp
    from IH [OF this] f c
    have "\<exists>i. \<not> writeConflictAt (afterConflict rid s)
                  (updateAttempts (afterConflict rid s) + i)"
      by (simp del: afterConflict_fields add: afterConflict_fields(4))
    then obtain i where "\<not> writeConflictAt s (updateAttempts s + Suc i)"
      by auto
    then show ?thesis by blast
  qed
qed

lemma retry_returns_no_endless_conflict:
  "writeConflictRetry (doStartBlockingWrite opCtx originalDoc) s = Some y \<Longrightarrow>
   donorsCollection s = Some c \<Longrightarrow> findOne c (toBSON originalDoc) = Some rid \<Longrightarrow>
   \<exists>i. \<not> writeConflictAt s (updateAttempts s + i)"
  using retry_returns_no_endless_conflict_aux by blast

lemma first_without_conflict:
  assumes "\<exists>i. \<not> writeConflictAt s (n + i)"
  shows "\<exists>k. (\<forall>i<k. writeConflictAt s (n + i)) \<and> \<not> writeConflictAt s (n + k)"
proof -
  from assms obtain k where "\<not> writeConflictAt s (n + k)"
    and "\<forall>i<k. \<not> \<not> writeConflictAt s (n + i)"
    using exists_least_iff [of "\<lambda>i. \<not> writeConflictAt s (n + i)"] by blast
  then show ?thesis by auto
qed

lemma retry_commits:
  assumes "donorsCollection s = Some c"
    and "findOne c (toBSON originalDoc) = Some rid"
    and "\<forall>i<k. writeConflictAt s (updateAttempts s + i)"
    and "\<not> writeConflictAt s (updateAttempts s + k)"
    and "writesAreReplicated opCtx"
    and "mtabByPrefix s (getDatabasePrefix originalDoc) = Some mtab"
    and "writesBlocked (heap s mtab)"
  shows "writeConflictRetry (doStartBlockingWrite opCtx originalDoc) s =
         Some (Done OK (afterCommit originalDoc rid mtab (afterConflicts rid k s)))"
proof -
  have "doStartBlockingWrite opCtx originalDoc (afterConflicts rid k s) =
        Done OK (afterCommit originalDoc rid mtab (afterConflicts rid k s))"
    using assms by (intro closure_commit [where c = c]) simp_all
  then show ?thesis
    using retry_conflicts [OF assms(1,2,3)] by (simp add: retry_done)
qed

lemma retry_replica:
  assumes "donorsCollection s = Some c"
    and "findOne c (toBSON originalDoc) = Some rid"
    and "\<forall>i<k. writeConflictAt s (updateAttempts s + i)"
    and "\<not> writeConflictAt s (updateAttempts s + k)"
    and "\<not> writesAreReplicated opCtx"
    and "mtabByPrefix s (getDatabasePrefix originalDoc) = Some mtab"
  shows "writeConflictRetry (doStartBlockingWrite opCtx originalDoc) s =
         Some (Abort (InvariantFailure ''!mtab''))"
proof -
  have "doStartBlockingWrite opCtx originalDoc (afterConflicts rid k s) =
        Abort (InvariantFailure ''!mtab'')"
    using assms by (intro closure_replica [where c = c and rid = rid and mtab = mtab]) simp_all
  then show ?thesis
    using retry_conflicts [OF assms(1,2,3)] by (simp add: retry_abort)
qed

subsection \<open>Every result of \<open>dataSync\<close>\<close>

lemma dataSync_unfold:
  "dataSync opCtx originalDoc s =
     (if getState originalDoc \<noteq> kDataSync
      then Some (Abort (InvariantFailure
             ''donorDoc.getState() == TenantMigrationDonorStateEnum::kDataSync''))
      else if mtabByPrefix s (getDatabasePrefix originalDoc) \<noteq> None
      then Some (Abort (InvariantFailure ''add: the tenant has an access blocker already''))
      else map_option uassertStatusOK
             (writeConflictRetry (doStartBlockingWrite opCtx originalDoc)
                (afterBlock (getDatabasePrefix originalDoc) s)))"
  by (simp add: dataSync_def block_on_primary invariant_def)

lemma dataSync_commits:
  assumes "getState originalDoc = kDataSync"
    and "mtabByPrefix s (getDatabasePrefix originalDoc) = None"
    and "donorsCollection s = Some c"
    and "findOne c (toBSON originalDoc) = Some rid"
    and "\<forall>i<k. writeConflictAt s (updateAttempts s + i)"
    and "\<not> writeConflictAt s (updateAttempts s + k)"
    and "writesAreReplicated opCtx"
  shows "dataSync opCtx originalDoc s =
         Some (Done () (afterCommit originalDoc rid (nextAddr s)
                 (afterConflicts rid k (afterBlock (getDatabasePrefix originalDoc) s))))"
proof -
  have "writeConflictRetry (doStartBlockingWrite opCtx originalDoc)
          (afterBlock (getDatabasePrefix originalDoc) s) =
        Some (Done OK (afterCommit originalDoc rid (nextAddr s)
                (afterConflicts rid k (afterBlock (getDatabasePrefix originalDoc) s))))"
    using assms by (intro retry_commits [where c = c]) simp_all
  then show ?thesis
    using assms(1,2) by (simp add: dataSync_unfold uassertStatusOK_def)
qed

lemma dataSync_replica:
  assumes "getState originalDoc = kDataSync"
    and "mtabByPrefix s (getDatabasePrefix originalDoc) = None"
    and "donorsCollection s = Some c"
    and "findOne c (toBSON originalDoc) = Some rid"
    and "\<forall>i<k. writeConflictAt s (updateAttempts s + i)"
    and "\<not> writeConflictAt s (updateAttempts s + k)"
    and "\<not> writesAreReplicated opCtx"
  shows "dataSync opCtx originalDoc s = Some (Abort (InvariantFailure ''!mtab''))"
proof -
  have "writeConflictRetry (doStartBlockingWrite opCtx originalDoc)
          (afterBlock (getDatabasePrefix originalDoc) s) =
        Some (Abort (InvariantFailure ''!mtab''))"
    using assms by (intro retry_replica [where c = c and rid = rid and k = k]) simp_all
  then show ?thesis
    using assms(1,2) by (simp add: dataSync_unfold uassertStatusOK_def)
qed

lemma dataSync_no_collection:
  assumes "getState originalDoc = kDataSync"
    and "mtabByPrefix s (getDatabasePrefix originalDoc) = None"
    and "donorsCollection s = None"
  shows "dataSync opCtx originalDoc s =
         Some (Thrown NamespaceNotFound
                (record_event EvGetCollection (afterBlock (getDatabasePrefix originalDoc) s)))"
  using assms
  by (simp add: dataSync_unfold retry_done [OF closure_no_collection] uassertStatusOK_def)

lemma dataSync_no_record:
  assumes "getState originalDoc = kDataSync"
    and "mtabByPrefix s (getDatabasePrefix originalDoc) = None"
    and "donorsCollection s = Some c"
    and "findOne c (toBSON originalDoc) = None"
  shows "dataSync opCtx originalDoc s =
         Some (Abort (InvariantFailure ''!originalRecordId.isNull()''))"
  using assms
  by (simp add: dataSync_unfold retry_abort [OF closure_no_record] uassertStatusOK_def)

text \<open>
  A run of \<open>dataSync\<close> that returns has failed an invariant, or has thrown
  \<open>NamespaceNotFound\<close> because the collection is absent, or has committed after a number
  \<open>k\<close> of write conflicts.
\<close>

lemma dataSync_returns:
  assumes "dataSync opCtx originalDoc s = Some r"
  shows "(\<exists>msg. r = Abort (InvariantFailure msg)) \<or>
         (getState originalDoc = kDataSync \<and>
          mtabByPrefix s (getDatabasePrefix originalDoc) = None \<and>
          donorsCollection s = None \<and>
          r = Thrown NamespaceNotFound
                (record_event EvGetCollection (afterBlock (getDatabasePrefix originalDoc) s))) \<or>
         (\<exists>c rid k.
            getState originalDoc = kDataSync \<and>
            mtabByPrefix s (getDatabasePrefix originalDoc) = None \<and>
            donorsCollection s = Some c \<and>
            findOne c (toBSON originalDoc) = Some rid \<and>
            (\<forall>i<k. writeConflictAt s (updateAttempts s + i)) \<and>
            \<not> writeConflictAt s (updateAttempts s + k) \<and>
            writesAreReplicated opCtx \<and>
            r = Done () (afterCommit originalDoc rid (nextAddr s)
                  (afterConflicts rid k (afterBlock (getDatabasePrefix originalDoc) s))))"
proof (cases "getState originalDoc = kDataSync \<and>
              mtabByPrefix s (getDatabasePrefix originalDoc) = None")
  case False
  with assms show ?thesis
    by (auto simp add: dataSync_unfold split: if_splits)
next
  case True
  then have st: "getState originalDoc = kDataSync"
    and reg: "mtabByPrefix s (getDatabasePrefix originalDoc) = None"
    by simp_all
  show ?thesis
  proof (cases "donorsCollection s")
    case None
    with assms st reg show ?thesis
      by (simp add: dataSync_no_collection)
  next
    case (Some c)
    show ?thesis
    proof (cases "findOne c (toBSON originalDoc)")
      case None
      with assms st reg Some show ?thesis
        by (auto simp add: dataSync_no_record)
    next
      case (Some rid)
      from assms st reg obtain y where
        y: "writeConflictRetry (doStartBlockingWrite opCtx originalDoc)
              (afterBlock (getDatabasePrefix originalDoc) s) = Some y"
        by (auto simp add: dataSync_unfold)
      have "\<exists>i. \<not> writeConflictAt (afterBlock (getDatabasePrefix originalDoc) s)
                   (updateAttempts (afterBlock (getDatabasePrefix originalDoc) s) + i)"
        using y \<open>donorsCollection s = Some c\<close> Some
        by (intro retry_returns_no_endless_conflict [where c = c and rid = rid]) simp_all
      then have "\<exists>i. \<not> writeConflictAt s (updateAttempts s + i)"
        by simp
      then obtain k where k: "\<forall>i<k. writeConflictAt s (updateAttempts s + i)"
        "\<not> writeConflictAt s (updateAttempts s + k)"
        using first_without_conflict by blast
      show ?thesis
      proof (cases "writesAreReplicated opCtx")
        case True
        from dataSync_commits [OF st reg \<open>donorsCollection s = Some c\<close> Some k True] assms
        have "r = Done () (afterCommit originalDoc rid (nextAddr s)
                  (afterConflicts rid k (afterBlock (getDatabasePrefix originalDoc) s)))"
          by simp
        with st reg \<open>donorsCollection s = Some c\<close> Some k True show ?thesis
          by blast
      next
        case False
        from dataSync_replica [OF st reg \<open>donorsCollection s = Some c\<close> Some k False] assms
        show ?thesis by auto
      qed
    qed
  qed
qed

lemma dataSync_Done:
  assumes "dataSync opCtx originalDoc s = Some (Done () s')"
  obtains c rid k where
    "getState originalDoc = kDataSync"
    "mtabByPrefix s (getDatabasePrefix originalDoc) = None"
    "donorsCollection s = Some c"
    "findOne c (toBSON originalDoc) = Some rid"
    "\<forall>i<k. writeConflictAt s (updateAttempts s + i)"
    "\<not> writeConflictAt s (updateAttempts s + k)"
    "writesAreReplicated opCtx"
    "s' = afterCommit originalDoc rid (nextAddr s)
            (afterConflicts rid k (afterBlock (getDatabasePrefix originalDoc) s))"
  using dataSync_returns [OF assms] by auto

lemma dataSync_Thrown:
  assumes "dataSync opCtx originalDoc s = Some (Thrown e s')"
  shows "e = NamespaceNotFound \<and> getState originalDoc = kDataSync \<and>
         mtabByPrefix s (getDatabasePrefix originalDoc) = None \<and> donorsCollection s = None \<and>
         s' = record_event EvGetCollection (afterBlock (getDatabasePrefix originalDoc) s)"
  using dataSync_returns [OF assms] by auto

subsection \<open>Two runs\<close>

lemma busyNode_run:
  "dataSync primaryCtx t1DataSync busyNode =
     Some (Done () (afterCommit t1DataSync 1 0 (afterConflicts 1 1 (afterBlock ''t1'' busyNode))))"
proof -
  have "dataSync primaryCtx t1DataSync busyNode =
     Some (Done () (afterCommit t1DataSync 1 (nextAddr busyNode)
       (afterConflicts 1 1 (afterBlock (getDatabasePrefix t1DataSync) busyNode))))"
    by (rule dataSync_commits [where c = "[(1, toBSON t1DataSync)]"])
       (simp_all add: example_defs)
  then show ?thesis by (simp add: example_defs)
qed

lemma bareNode_run:
  "dataSync primaryCtx t1DataSync bareNode =
     Some (Thrown NamespaceNotFound (record_event EvGetCollection (afterBlock ''t1'' bareNode)))"
proof -
  have "dataSync primaryCtx t1DataSync bareNode =
     Some (Thrown NamespaceNotFound
       (record_event EvGetCollection (afterBlock (getDatabasePrefix t1DataSync) bareNode)))"
    by (rule dataSync_no_collection) (simp_all add: example_defs)
  then show ?thesis by (simp add: example_defs)
qed

subsection \<open>The transition on the primary, from end to end\<close>

text \<open>
  Claim C1. A run of \<open>dataSync\<close> returns normally exactly when the record is in state
  \<open>kDataSync\<close>, the node is a primary, the tenant has no access blocker yet, the donors
  collection holds the record, and the write conflicts come to an end. When it has returned
  normally, the lookup of the tenant in the registry gave nothing before the run, and there is
  a position \<open>P\<close>, handed out during the run, such that the record persisted in the place
  of the original one has state \<open>kBlocking\<close> and block timestamp \<open>P\<close>, and the access
  blocker registered for the tenant blocks writes and blocks reads after \<open>P\<close>.
\<close>

theorem dataSync_end_to_end:
  "((\<exists>s'. dataSync opCtx originalDoc s = Some (Done () s')) =
      (getState originalDoc = kDataSync \<and> writesAreReplicated opCtx \<and>
       getMigratingTenantBlocker (getDatabasePrefix originalDoc) s = None \<and>
       (\<exists>c rid n. donorsCollection s = Some c \<and> findOne c (toBSON originalDoc) = Some rid \<and>
          \<not> writeConflictAt s (updateAttempts s + n)))) \<and>
   (\<forall>s'. dataSync opCtx originalDoc s = Some (Done () s') \<longrightarrow>
      getMigratingTenantBlocker (getDatabasePrefix originalDoc) s = None \<and>
      (\<exists>P c rid b.
         nextTimestamp s \<le> P \<and> P < nextTimestamp s' \<and>
         donorsCollection s = Some c \<and> findOne c (toBSON originalDoc) = Some rid \<and>
         recordAt s' rid =
           Some (toBSON
             \<lparr>getId = getId originalDoc, getDatabasePrefix = getDatabasePrefix originalDoc,
              getState = kBlocking, getBlockTimestamp = Some P\<rparr>) \<and>
         blockerOf s' (getDatabasePrefix originalDoc) = Some b \<and>
         isBlockingWrites b \<and> blockedReadPosition b = Some P))"
proof (rule conjI)
  show "(\<exists>s'. dataSync opCtx originalDoc s = Some (Done () s')) =
      (getState originalDoc = kDataSync \<and> writesAreReplicated opCtx \<and>
       getMigratingTenantBlocker (getDatabasePrefix originalDoc) s = None \<and>
       (\<exists>c rid n. donorsCollection s = Some c \<and> findOne c (toBSON originalDoc) = Some rid \<and>
          \<not> writeConflictAt s (updateAttempts s + n)))"
    (is "?returns = ?pre")
  proof (rule iffI)
    assume ?returns
    then obtain s' where "dataSync opCtx originalDoc s = Some (Done () s')" ..
    then show ?pre
      by (rule dataSync_Done) (auto simp add: getMigratingTenantBlocker_def)
  next
    assume pre: ?pre
    then obtain c rid n where c: "donorsCollection s = Some c"
      and rid: "findOne c (toBSON originalDoc) = Some rid"
      and "\<not> writeConflictAt s (updateAttempts s + n)"
      by blast
    then obtain k where "\<forall>i<k. writeConflictAt s (updateAttempts s + i)"
      and "\<not> writeConflictAt s (updateAttempts s + k)"
      using first_without_conflict by blast
    with pre c rid show ?returns
      by (simp add: dataSync_commits [where c = c and rid = rid and k = k]
            getMigratingTenantBlocker_def)
  qed
next
  show "\<forall>s'. dataSync opCtx originalDoc s = Some (Done () s') \<longrightarrow>
      getMigratingTenantBlocker (getDatabasePrefix originalDoc) s = None \<and>
      (\<exists>P c rid b.
         nextTimestamp s \<le> P \<and> P < nextTimestamp s' \<and>
         donorsCollection s = Some c \<and> findOne c (toBSON originalDoc) = Some rid \<and>
         recordAt s' rid =
           Some (toBSON
             \<lparr>getId = getId originalDoc, getDatabasePrefix = getDatabasePrefix originalDoc,
              getState = kBlocking, getBlockTimestamp = Some P\<rparr>) \<and>
         blockerOf s' (getDatabasePrefix originalDoc) = Some b \<and>
         isBlockingWrites b \<and> blockedReadPosition b = Some P)"
  proof (intro allI impI)
    fix s'
    assume "dataSync opCtx originalDoc s = Some (Done () s')"
    then obtain c rid k where c: "donorsCollection s = Some c"
      and reg: "mtabByPrefix s (getDatabasePrefix originalDoc) = None"
      and rid: "findOne c (toBSON originalDoc) = Some rid"
      and s': "s' = afterCommit originalDoc rid (nextAddr s)
                 (afterConflicts rid k (afterBlock (getDatabasePrefix originalDoc) s))"
      by (rule dataSync_Done)
    let ?P = "nextTimestamp s + k"
    have "recordAt s' rid =
            Some (toBSON
               \<lparr>getId = getId originalDoc, getDatabasePrefix = getDatabasePrefix originalDoc,
                getState = kBlocking, getBlockTimestamp = Some ?P\<rparr>)"
      using c findOne_in_collection [OF rid]
      by (simp add: s' recordAt_def map_of_updateRecord updatedDoc_def reservedSlot_def
            toBSON_def)
    moreover have "blockerOf s' (getDatabasePrefix originalDoc) =
        Some \<lparr>writesBlocked = True, readsBlockedAfter = Some ?P\<rparr>"
      by (simp add: s' blockerOf_def getMigratingTenantBlocker_def)
    moreover have "nextTimestamp s \<le> ?P" "?P < nextTimestamp s'"
      by (simp_all add: s')
    ultimately have "\<exists>P c rid b.
         nextTimestamp s \<le> P \<and> P < nextTimestamp s' \<and>
         donorsCollection s = Some c \<and> findOne c (toBSON originalDoc) = Some rid \<and>
         recordAt s' rid =
           Some (toBSON
             \<lparr>getId = getId originalDoc, getDatabasePrefix = getDatabasePrefix originalDoc,
              getState = kBlocking, getBlockTimestamp = Some P\<rparr>) \<and>
         blockerOf s' (getDatabasePrefix originalDoc) = Some b \<and>
         isBlockingWrites b \<and> blockedReadPosition b = Some P"
      using c rid by (simp add: isBlockingWrites_def blockedReadPosition_def)
    with reg show "getMigratingTenantBlocker (getDatabasePrefix originalDoc) s = None \<and>
      (\<exists>P c rid b.
         nextTimestamp s \<le> P \<and> P < nextTimestamp s' \<and>
         donorsCollection s = Some c \<and> findOne c (toBSON originalDoc) = Some rid \<and>
         recordAt s' rid =
           Some (toBSON
             \<lparr>getId = getId originalDoc, getDatabasePrefix = getDatabasePrefix originalDoc,
              getState = kBlocking, getBlockTimestamp = Some P\<rparr>) \<and>
         blockerOf s' (getDatabasePrefix originalDoc) = Some b \<and>
         isBlockingWrites b \<and> blockedReadPosition b = Some P)"
      by (simp add: getMigratingTenantBlocker_def)
  qed
qed

theorem dataSync_end_to_end_witness:
  "\<exists>s' P b.
     dataSync primaryCtx t1DataSync busyNode = Some (Done () s') \<and>
     getMigratingTenantBlocker ''t1'' busyNode = None \<and>
     100 \<le> P \<and> P < nextTimestamp s' \<and>
     recordAt s' 1 =
       Some \<lparr>getId = 7, getDatabasePrefix = ''t1'', getState = kBlocking,
             getBlockTimestamp = Some P\<rparr> \<and>
     blockerOf s' ''t1'' = Some b \<and> isBlockingWrites b \<and> blockedReadPosition b = Some P"
proof -
  have "donorsCollection busyNode = Some [(1, toBSON t1DataSync)] \<and>
        findOne [(1, toBSON t1DataSync)] (toBSON t1DataSync) = Some 1 \<and>
        \<not> writeConflictAt busyNode (updateAttempts busyNode + 1)"
    by (simp add: example_defs)
  then have "getState t1DataSync = kDataSync \<and> writesAreReplicated primaryCtx \<and>
       getMigratingTenantBlocker (getDatabasePrefix t1DataSync) busyNode = None \<and>
       (\<exists>c rid n. donorsCollection busyNode = Some c \<and>
          findOne c (toBSON t1DataSync) = Some rid \<and>
          \<not> writeConflictAt busyNode (updateAttempts busyNode + n))"
    by (auto simp add: example_defs getMigratingTenantBlocker_def intro: exI [of _ "Suc 0"])
  with dataSync_end_to_end [of primaryCtx t1DataSync busyNode]
  obtain s' where s': "dataSync primaryCtx t1DataSync busyNode = Some (Done () s')"
    by blast
  with dataSync_end_to_end [of primaryCtx t1DataSync busyNode]
  show ?thesis
    by (simp add: example_defs toBSON_def)
qed

subsection \<open>The order of the three steps\<close>

text \<open>
  Claim C2. In every run of \<open>dataSync\<close> that returns normally, the calls made during the
  run start with \<open>startBlockingWrites\<close> on the blocker that the tenant then has; a position
  \<open>slot\<close> is reserved later, and it is the position of the persisted record; the only call
  of \<open>startBlockingReadsAfter\<close> in the run comes after that reservation, with no other
  reservation in between, on the same blocker and with the timestamp of \<open>slot\<close>. A run that
  throws has made no call of \<open>startBlockingReadsAfter\<close> at all.
\<close>

theorem dataSync_three_step_order:
  "(\<forall>s'. dataSync opCtx originalDoc s = Some (Done () s') \<longrightarrow>
      (\<exists>mtab mid slot post rest rid.
         trace s' = trace s @ [EvStartBlockingWrites mtab] @ mid @ [EvReserve slot] @ post @
           [EvStartBlockingReadsAfter mtab (getTimestamp slot)] @ rest \<and>
         filter isReadsAfter (mid @ post @ rest) = [] \<and>
         filter isReserve (post @ rest) = [] \<and>
         getMigratingTenantBlocker (getDatabasePrefix originalDoc) s' = Some mtab \<and>
         recordAt s' rid = Some (toBSON (updatedDoc originalDoc slot)))) \<and>
   (\<forall>e s'. dataSync opCtx originalDoc s = Some (Thrown e s') \<longrightarrow>
      (\<exists>new. trace s' = trace s @ new \<and> filter isReadsAfter new = []))"
proof (intro conjI allI impI)
  fix s'
  assume "dataSync opCtx originalDoc s = Some (Done () s')"
  then obtain c rid k where c: "donorsCollection s = Some c"
    and rid: "findOne c (toBSON originalDoc) = Some rid"
    and s': "s' = afterCommit originalDoc rid (nextAddr s)
               (afterConflicts rid k (afterBlock (getDatabasePrefix originalDoc) s))"
    by (rule dataSync_Done)
  let ?slot = "\<lparr>getTimestamp = nextTimestamp s + k, getTerm = currentTerm s\<rparr>"
  let ?mid = "[EvAdd (getDatabasePrefix originalDoc) (nextAddr s)] @
      conflictEvents rid (nextTimestamp s) (currentTerm s) k @
      [EvGetCollection, EvFindOne (Some rid)]"
  let ?post = "[EvUpdate rid ?slot]"
  let ?rest = "[EvCommit]"
  have "trace s' = trace s @ [EvStartBlockingWrites (nextAddr s)] @ ?mid @ [EvReserve ?slot] @
      ?post @ [EvStartBlockingReadsAfter (nextAddr s) (getTimestamp ?slot)] @ ?rest"
    by (simp add: s' afterConflicts_trace reservedSlot_def)
  moreover have "filter isReadsAfter (?mid @ ?post @ ?rest) = []"
    by (simp add: conflictEvents_no_readsAfter)
  moreover have "filter isReserve (?post @ ?rest) = []"
    by simp
  moreover have "getMigratingTenantBlocker (getDatabasePrefix originalDoc) s' = Some (nextAddr s)"
    by (simp add: s' getMigratingTenantBlocker_def)
  moreover have "recordAt s' rid = Some (toBSON (updatedDoc originalDoc ?slot))"
    using c findOne_in_collection [OF rid]
    by (simp add: s' recordAt_def map_of_updateRecord reservedSlot_def toBSON_def)
  ultimately show "\<exists>mtab mid slot post rest rid.
         trace s' = trace s @ [EvStartBlockingWrites mtab] @ mid @ [EvReserve slot] @ post @
           [EvStartBlockingReadsAfter mtab (getTimestamp slot)] @ rest \<and>
         filter isReadsAfter (mid @ post @ rest) = [] \<and>
         filter isReserve (post @ rest) = [] \<and>
         getMigratingTenantBlocker (getDatabasePrefix originalDoc) s' = Some mtab \<and>
         recordAt s' rid = Some (toBSON (updatedDoc originalDoc slot))"
    by blast
next
  fix e s'
  assume "dataSync opCtx originalDoc s = Some (Thrown e s')"
  then have "s' = record_event EvGetCollection (afterBlock (getDatabasePrefix originalDoc) s)"
    by (simp add: dataSync_Thrown)
  then have "trace s' = trace s @
      [EvStartBlockingWrites (nextAddr s), EvAdd (getDatabasePrefix originalDoc) (nextAddr s),
       EvGetCollection]"
    by (simp add: record_event_def)
  moreover have "filter isReadsAfter
      [EvStartBlockingWrites (nextAddr s), EvAdd (getDatabasePrefix originalDoc) (nextAddr s),
       EvGetCollection] = []"
    by simp
  ultimately show "\<exists>new. trace s' = trace s @ new \<and> filter isReadsAfter new = []"
    by blast
qed

theorem dataSync_three_step_order_witness:
  "(\<exists>s' mtab mid slot post rest rid.
      dataSync primaryCtx t1DataSync busyNode = Some (Done () s') \<and>
      trace s' = trace busyNode @ [EvStartBlockingWrites mtab] @ mid @ [EvReserve slot] @ post @
        [EvStartBlockingReadsAfter mtab (getTimestamp slot)] @ rest \<and>
      filter isReadsAfter (mid @ post @ rest) = [] \<and>
      filter isReserve (post @ rest) = [] \<and>
      getMigratingTenantBlocker ''t1'' s' = Some mtab \<and>
      recordAt s' rid = Some (toBSON (updatedDoc t1DataSync slot))) \<and>
   (\<exists>s' new.
      dataSync primaryCtx t1DataSync bareNode = Some (Thrown NamespaceNotFound s') \<and>
      trace s' = trace bareNode @ new \<and> filter isReadsAfter new = [])"
  using dataSync_three_step_order [of primaryCtx t1DataSync busyNode] busyNode_run
    dataSync_three_step_order [of primaryCtx t1DataSync bareNode] bareNode_run
  by (simp add: t1DataSync_def)

subsection \<open>The persisted update\<close>




subsection \<open>An absent collection and write conflicts\<close>

lemma dataSync_endless_conflicts:
  assumes "getState originalDoc = kDataSync"
    and "mtabByPrefix s (getDatabasePrefix originalDoc) = None"
    and "donorsCollection s = Some c"
    and "findOne c (toBSON originalDoc) = Some rid"
    and "\<forall>i. writeConflictAt s (updateAttempts s + i)"
  shows "dataSync opCtx originalDoc s = None"
proof (cases "dataSync opCtx originalDoc s")
  case None
  then show ?thesis .
next
  case (Some r)
  with assms(1,2) obtain y where
    "writeConflictRetry (doStartBlockingWrite opCtx originalDoc)
       (afterBlock (getDatabasePrefix originalDoc) s) = Some y"
    by (auto simp add: dataSync_unfold)
  then have "\<exists>i. \<not> writeConflictAt (afterBlock (getDatabasePrefix originalDoc) s)
      (updateAttempts (afterBlock (getDatabasePrefix originalDoc) s) + i)"
    using assms(3,4)
    by (intro retry_returns_no_endless_conflict [where c = c and rid = rid]) simp_all
  with assms(5) show ?thesis by simp
qed

text \<open>
  Claim C6. For a record in state \<open>kDataSync\<close> of a tenant without access blocker: when
  the donors collection is absent, \<open>dataSync\<close> throws \<open>NamespaceNotFound\<close> after a
  single lookup of the collection, with no storage update attempted and no position reserved.
  When the collection holds the record and the first \<open>k\<close> storage updates meet a write
  conflict, the closure is run \<open>k + 1\<close> times on a primary, each time from its start
  (lookup of the collection, search for the record, reservation of a position), and the last
  run updates the record and commits. When every storage update meets a write conflict,
  \<open>dataSync\<close> does not return.
\<close>

theorem dataSync_not_found_and_retry:
  assumes "getState originalDoc = kDataSync"
    and "getMigratingTenantBlocker (getDatabasePrefix originalDoc) s = None"
  shows
  "(donorsCollection s = None \<longrightarrow>
      (\<exists>s'. dataSync opCtx originalDoc s = Some (Thrown NamespaceNotFound s') \<and>
         trace s' = trace s @
           [EvStartBlockingWrites (nextAddr s),
            EvAdd (getDatabasePrefix originalDoc) (nextAddr s), EvGetCollection] \<and>
         updateAttempts s' = updateAttempts s \<and> nextTimestamp s' = nextTimestamp s)) \<and>
   (\<forall>c rid k.
      donorsCollection s = Some c \<and> findOne c (toBSON originalDoc) = Some rid \<and>
      writesAreReplicated opCtx \<and>
      (\<forall>i<k. writeConflictAt s (updateAttempts s + i)) \<and>
      \<not> writeConflictAt s (updateAttempts s + k) \<longrightarrow>
      (\<exists>s'. dataSync opCtx originalDoc s = Some (Done () s') \<and>
         trace s' = trace s @
           [EvStartBlockingWrites (nextAddr s),
            EvAdd (getDatabasePrefix originalDoc) (nextAddr s)] @
           conflictEvents rid (nextTimestamp s) (currentTerm s) k @
           [EvGetCollection, EvFindOne (Some rid),
            EvReserve \<lparr>getTimestamp = nextTimestamp s + k, getTerm = currentTerm s\<rparr>,
            EvUpdate rid \<lparr>getTimestamp = nextTimestamp s + k, getTerm = currentTerm s\<rparr>,
            EvStartBlockingReadsAfter (nextAddr s) (nextTimestamp s + k), EvCommit] \<and>
         updateAttempts s' = updateAttempts s + k + 1 \<and>
         nextTimestamp s' = nextTimestamp s + k + 1)) \<and>
   (\<forall>c rid.
      donorsCollection s = Some c \<and> findOne c (toBSON originalDoc) = Some rid \<and>
      (\<forall>i. writeConflictAt s (updateAttempts s + i)) \<longrightarrow>
      dataSync opCtx originalDoc s = None)"
proof (intro conjI allI impI)
  assume "donorsCollection s = None"
  with assms have "dataSync opCtx originalDoc s =
      Some (Thrown NamespaceNotFound
        (record_event EvGetCollection (afterBlock (getDatabasePrefix originalDoc) s)))"
    by (intro dataSync_no_collection) (simp_all add: getMigratingTenantBlocker_def)
  then show "\<exists>s'. dataSync opCtx originalDoc s = Some (Thrown NamespaceNotFound s') \<and>
         trace s' = trace s @
           [EvStartBlockingWrites (nextAddr s),
            EvAdd (getDatabasePrefix originalDoc) (nextAddr s), EvGetCollection] \<and>
         updateAttempts s' = updateAttempts s \<and> nextTimestamp s' = nextTimestamp s"
    by (simp add: record_event_def)
next
  fix c rid k
  assume h: "donorsCollection s = Some c \<and> findOne c (toBSON originalDoc) = Some rid \<and>
      writesAreReplicated opCtx \<and>
      (\<forall>i<k. writeConflictAt s (updateAttempts s + i)) \<and>
      \<not> writeConflictAt s (updateAttempts s + k)"
  with assms have "dataSync opCtx originalDoc s =
      Some (Done () (afterCommit originalDoc rid (nextAddr s)
        (afterConflicts rid k (afterBlock (getDatabasePrefix originalDoc) s))))"
    by (intro dataSync_commits [where c = c]) (simp_all add: getMigratingTenantBlocker_def)
  then show "\<exists>s'. dataSync opCtx originalDoc s = Some (Done () s') \<and>
         trace s' = trace s @
           [EvStartBlockingWrites (nextAddr s),
            EvAdd (getDatabasePrefix originalDoc) (nextAddr s)] @
           conflictEvents rid (nextTimestamp s) (currentTerm s) k @
           [EvGetCollection, EvFindOne (Some rid),
            EvReserve \<lparr>getTimestamp = nextTimestamp s + k, getTerm = currentTerm s\<rparr>,
            EvUpdate rid \<lparr>getTimestamp = nextTimestamp s + k, getTerm = currentTerm s\<rparr>,
            EvStartBlockingReadsAfter (nextAddr s) (nextTimestamp s + k), EvCommit] \<and>
         updateAttempts s' = updateAttempts s + k + 1 \<and>
         nextTimestamp s' = nextTimestamp s + k + 1"
    by (simp add: afterConflicts_trace reservedSlot_def)
next
  fix c rid
  assume "donorsCollection s = Some c \<and> findOne c (toBSON originalDoc) = Some rid \<and>
      (\<forall>i. writeConflictAt s (updateAttempts s + i))"
  with assms show "dataSync opCtx originalDoc s = None"
    by (intro dataSync_endless_conflicts [where c = c and rid = rid])
       (simp_all add: getMigratingTenantBlocker_def)
qed

theorem dataSync_not_found_and_retry_witness:
  "(\<exists>s'. dataSync primaryCtx t1DataSync bareNode = Some (Thrown NamespaceNotFound s') \<and>
      trace s' = [EvStartBlockingWrites 0, EvAdd ''t1'' 0, EvGetCollection] \<and>
      updateAttempts s' = 0 \<and> nextTimestamp s' = 100) \<and>
   (\<exists>s'. dataSync primaryCtx t1DataSync busyNode = Some (Done () s') \<and>
      trace s' =
        [EvStartBlockingWrites 0, EvAdd ''t1'' 0,
         EvGetCollection, EvFindOne (Some 1),
         EvReserve \<lparr>getTimestamp = 100, getTerm = 1\<rparr>, EvWriteConflict,
         EvGetCollection, EvFindOne (Some 1),
         EvReserve \<lparr>getTimestamp = 101, getTerm = 1\<rparr>,
         EvUpdate 1 \<lparr>getTimestamp = 101, getTerm = 1\<rparr>,
         EvStartBlockingReadsAfter 0 101, EvCommit] \<and>
      updateAttempts s' = 2 \<and> nextTimestamp s' = 102) \<and>
   dataSync primaryCtx t1DataSync (quietNode\<lparr>writeConflictAt := (\<lambda>n. True)\<rparr>) = None"
proof -
  have a: "getState t1DataSync = kDataSync"
    and b: "getMigratingTenantBlocker (getDatabasePrefix t1DataSync) bareNode = None"
      "getMigratingTenantBlocker (getDatabasePrefix t1DataSync) busyNode = None"
      "getMigratingTenantBlocker (getDatabasePrefix t1DataSync)
         (quietNode\<lparr>writeConflictAt := (\<lambda>n. True)\<rparr>) = None"
    by (simp_all add: example_defs getMigratingTenantBlocker_def)
  have busy: "donorsCollection busyNode = Some [(1, toBSON t1DataSync)] \<and>
      findOne [(1, toBSON t1DataSync)] (toBSON t1DataSync) = Some 1 \<and>
      writesAreReplicated primaryCtx \<and>
      (\<forall>i<Suc 0. writeConflictAt busyNode (updateAttempts busyNode + i)) \<and>
      \<not> writeConflictAt busyNode (updateAttempts busyNode + Suc 0)"
    by (simp add: example_defs)
  have stuck: "donorsCollection (quietNode\<lparr>writeConflictAt := (\<lambda>n. True)\<rparr>) =
        Some [(1, toBSON t1DataSync)] \<and>
      findOne [(1, toBSON t1DataSync)] (toBSON t1DataSync) = Some 1 \<and>
      (\<forall>i. writeConflictAt (quietNode\<lparr>writeConflictAt := (\<lambda>n. True)\<rparr>)
             (updateAttempts (quietNode\<lparr>writeConflictAt := (\<lambda>n. True)\<rparr>) + i))"
    by (simp add: example_defs)
  have bare: "donorsCollection bareNode = None"
    by (simp add: example_defs)
  have "\<exists>s'. dataSync primaryCtx t1DataSync bareNode = Some (Thrown NamespaceNotFound s') \<and>
      trace s' = [EvStartBlockingWrites 0, EvAdd ''t1'' 0, EvGetCollection] \<and>
      updateAttempts s' = 0 \<and> nextTimestamp s' = 100"
    using dataSync_not_found_and_retry [OF a b(1), of primaryCtx, THEN conjunct1,
        rule_format, OF bare]
    by (simp add: example_defs)
  moreover have "\<exists>s'. dataSync primaryCtx t1DataSync busyNode = Some (Done () s') \<and>
      trace s' =
        [EvStartBlockingWrites 0, EvAdd ''t1'' 0,
         EvGetCollection, EvFindOne (Some 1),
         EvReserve \<lparr>getTimestamp = 100, getTerm = 1\<rparr>, EvWriteConflict,
         EvGetCollection, EvFindOne (Some 1),
         EvReserve \<lparr>getTimestamp = 101, getTerm = 1\<rparr>,
         EvUpdate 1 \<lparr>getTimestamp = 101, getTerm = 1\<rparr>,
         EvStartBlockingReadsAfter 0 101, EvCommit] \<and>
      updateAttempts s' = 2 \<and> nextTimestamp s' = 102"
    using dataSync_not_found_and_retry [OF a b(2), of primaryCtx, THEN conjunct2,
        THEN conjunct1, rule_format, OF busy]
    by (simp add: example_defs numeral_2_eq_2)
  moreover have "dataSync primaryCtx t1DataSync (quietNode\<lparr>writeConflictAt := (\<lambda>n. True)\<rparr>) =
      None"
    using dataSync_not_found_and_retry [OF a b(3), of primaryCtx, THEN conjunct2,
        THEN conjunct2, rule_format, OF stuck] .
  ultimately show ?thesis by blast
qed

subsection \<open>A run that fails\<close>

text \<open>
  Claim C9, as stated, does not hold. On a primary without the donors collection,
  \<open>dataSync\<close> throws \<open>NamespaceNotFound\<close>; the tenant had no access blocker before the
  run and has one after it, which blocks writes.
\<close>

theorem dataSync_failure_keeps_blocker_counterexample:
  "dataSync primaryCtx t1DataSync bareNode =
     Some (Thrown NamespaceNotFound (record_event EvGetCollection (afterBlock ''t1'' bareNode))) \<and>
   blockerOf bareNode ''t1'' = None \<and>
   blockerOf (record_event EvGetCollection (afterBlock ''t1'' bareNode)) ''t1'' =
     Some \<lparr>writesBlocked = True, readsBlockedAfter = None\<rparr> \<and>
   mtabByPrefix (record_event EvGetCollection (afterBlock ''t1'' bareNode)) \<noteq>
     mtabByPrefix bareNode"
proof -
  have "mtabByPrefix (record_event EvGetCollection (afterBlock ''t1'' bareNode)) ''t1'' \<noteq>
      mtabByPrefix bareNode ''t1''"
    by (simp add: record_event_def example_defs)
  then have "mtabByPrefix (record_event EvGetCollection (afterBlock ''t1'' bareNode)) \<noteq>
      mtabByPrefix bareNode"
    by metis
  then show ?thesis
    using bareNode_run
    by (simp add: blockerOf_def getMigratingTenantBlocker_def record_event_def example_defs)
qed

text \<open>
  Claim C9, amended. For a record in state \<open>kDataSync\<close> of a tenant without access blocker,
  \<open>dataSync\<close> throws \<open>NamespaceNotFound\<close> when the donors collection is absent. Whenever
  \<open>dataSync\<close> throws, the error is \<open>NamespaceNotFound\<close>, the collection is absent, and the
  collection and the oplog are as they were; the tenant had no access blocker before the run,
  and the one that \<open>startTenantMigrationBlockOnPrimary\<close> registered is still registered
  after it: it blocks writes and has no read boundary.
\<close>

theorem dataSync_failure_keeps_blocker:
  "(getState originalDoc = kDataSync \<and>
    getMigratingTenantBlocker (getDatabasePrefix originalDoc) s = None \<and>
    donorsCollection s = None \<longrightarrow>
      (\<exists>s'. dataSync opCtx originalDoc s = Some (Thrown NamespaceNotFound s'))) \<and>
   (\<forall>e s'. dataSync opCtx originalDoc s = Some (Thrown e s') \<longrightarrow>
      e = NamespaceNotFound \<and> donorsCollection s = None \<and>
      donorsCollection s' = donorsCollection s \<and> oplog s' = oplog s \<and>
      blockerOf s (getDatabasePrefix originalDoc) = None \<and>
      blockerOf s' (getDatabasePrefix originalDoc) =
        Some \<lparr>writesBlocked = True, readsBlockedAfter = None\<rparr>)"
proof (intro conjI allI impI)
  assume "getState originalDoc = kDataSync \<and>
    getMigratingTenantBlocker (getDatabasePrefix originalDoc) s = None \<and>
    donorsCollection s = None"
  then show "\<exists>s'. dataSync opCtx originalDoc s = Some (Thrown NamespaceNotFound s')"
    by (simp add: dataSync_no_collection getMigratingTenantBlocker_def)
next
  fix e s'
  assume thrown: "dataSync opCtx originalDoc s = Some (Thrown e s')"
  note facts = dataSync_Thrown [OF thrown]
  from facts show "e = NamespaceNotFound" "donorsCollection s = None"
    by simp_all
  from facts show "donorsCollection s' = donorsCollection s" "oplog s' = oplog s"
    by (simp_all add: record_event_def)
  from facts show "blockerOf s (getDatabasePrefix originalDoc) = None"
    by (simp add: blockerOf_def getMigratingTenantBlocker_def)
  from facts show "blockerOf s' (getDatabasePrefix originalDoc) =
        Some \<lparr>writesBlocked = True, readsBlockedAfter = None\<rparr>"
    by (simp add: blockerOf_def getMigratingTenantBlocker_def record_event_def)
qed

theorem dataSync_failure_keeps_blocker_witness:
  "\<exists>s'. dataSync primaryCtx t1DataSync bareNode = Some (Thrown NamespaceNotFound s') \<and>
     donorsCollection s' = None \<and> oplog s' = [] \<and>
     blockerOf bareNode ''t1'' = None \<and>
     blockerOf s' ''t1'' = Some \<lparr>writesBlocked = True, readsBlockedAfter = None\<rparr>"
  using dataSync_failure_keeps_blocker [of t1DataSync bareNode primaryCtx] bareNode_run
  by (simp add: example_defs)

subsection \<open>Records in a terminal state\<close>

text \<open>
  Claim C8, as stated, does not hold for the op observer. A replica that replays a record in
  state \<open>kCommitted\<close> returns normally with its state unchanged: the record is accepted,
  not rejected. A record in state \<open>kBlocking\<close> replayed after it for the same tenant, on
  the state so reached, is not rejected either.
\<close>

theorem terminal_state_replay_counterexample:
  "onTenantMigrationDonorStateTransition replicaCtx (toBSON t1Committed) quietNode =
     Done () quietNode \<and>
   \<not> isAbort (onTenantMigrationDonorStateTransition replicaCtx (toBSON t1Committed) quietNode) \<and>
   \<not> isAbort (onTenantMigrationDonorStateTransition replicaCtx (toBSON t1Blocking) quietNode)"
  by (simp add: onTenantMigrationDonorStateTransition_def onTransitionToBlocking_def
        blocker_defs example_defs)

text \<open>
  Claim C8, amended. \<open>dataSync\<close> fails the invariant of
  \<open>startTenantMigrationBlockOnPrimary\<close> for every record whose state is not \<open>kDataSync\<close>,
  so for every record in state \<open>kCommitted\<close> or \<open>kAborted\<close>. The op observer
  \<open>onTenantMigrationDonorStateTransition\<close> returns normally, with the state of the node
  unchanged, for a record in state \<open>kCommitted\<close> or \<open>kAborted\<close>.
\<close>

theorem terminal_state_requests:
  "(getState donorDoc \<noteq> kDataSync \<longrightarrow>
      dataSync opCtx donorDoc s =
        Some (Abort (InvariantFailure
          ''donorDoc.getState() == TenantMigrationDonorStateEnum::kDataSync''))) \<and>
   (getState donorDoc = kCommitted \<or> getState donorDoc = kAborted \<longrightarrow>
      onTenantMigrationDonorStateTransition opCtx (toBSON donorDoc) s = Done () s)"
  by (auto simp add: dataSync_unfold onTenantMigrationDonorStateTransition_def parse_def
        toBSON_def)

theorem terminal_state_requests_witness:
  "dataSync primaryCtx t1Committed quietNode =
     Some (Abort (InvariantFailure
       ''donorDoc.getState() == TenantMigrationDonorStateEnum::kDataSync'')) \<and>
   onTenantMigrationDonorStateTransition primaryCtx (toBSON t1Committed) quietNode =
     Done () quietNode"
  using terminal_state_requests [of t1Committed primaryCtx quietNode]
  by (simp add: example_defs)

subsection \<open>The two roles\<close>

text \<open>
  Claim C7. Let a tenant have no access blocker, and take a record of the tenant in state
  \<open>kBlocking\<close> with block timestamp \<open>T\<close>. On a primary,
  \<open>startTenantMigrationBlockOnPrimary\<close> followed by the op observer on that record, and on a
  replica the op observer on that record alone, both return normally, and the access blockers
  that the tenant then has are equal: both block writes, and both block reads after \<open>T\<close>.
\<close>

theorem role_paths_agree:
  assumes "writesAreReplicated primary"
    and "\<not> writesAreReplicated replica"
    and "getState originalDoc = kDataSync"
    and "getState blockingDoc = kBlocking"
    and "getBlockTimestamp blockingDoc = Some T"
    and "getDatabasePrefix blockingDoc = getDatabasePrefix originalDoc"
    and "getMigratingTenantBlocker (getDatabasePrefix originalDoc) s = None"
  shows "\<exists>s1 sp sr bp br.
     startTenantMigrationBlockOnPrimary primary originalDoc s = Done () s1 \<and>
     onTenantMigrationDonorStateTransition primary (toBSON blockingDoc) s1 = Done () sp \<and>
     onTenantMigrationDonorStateTransition replica (toBSON blockingDoc) s = Done () sr \<and>
     blockerOf sp (getDatabasePrefix originalDoc) = Some bp \<and>
     blockerOf sr (getDatabasePrefix originalDoc) = Some br \<and>
     bp = br \<and>
     isBlockingWrites bp \<and> blockedReadPosition bp = Some T \<and>
     isBlockingWrites br \<and> blockedReadPosition br = Some T"
  using assms
  by (simp add: block_on_primary afterBlock_def onTenantMigrationDonorStateTransition_def
        onTransitionToBlocking_def blocker_defs blockerOf_def isBlockingWrites_def
        blockedReadPosition_def)

theorem role_paths_agree_witness:
  "\<exists>s1 sp sr bp br.
     startTenantMigrationBlockOnPrimary primaryCtx t1DataSync quietNode = Done () s1 \<and>
     onTenantMigrationDonorStateTransition primaryCtx (toBSON t1Blocking) s1 = Done () sp \<and>
     onTenantMigrationDonorStateTransition replicaCtx (toBSON t1Blocking) quietNode = Done () sr \<and>
     blockerOf sp ''t1'' = Some bp \<and> blockerOf sr ''t1'' = Some br \<and> bp = br \<and>
     isBlockingWrites bp \<and> blockedReadPosition bp = Some 100 \<and>
     isBlockingWrites br \<and> blockedReadPosition br = Some 100"
proof -
  have "writesAreReplicated primaryCtx" "\<not> writesAreReplicated replicaCtx"
    "getState t1DataSync = kDataSync" "getState t1Blocking = kBlocking"
    "getBlockTimestamp t1Blocking = Some 100"
    "getDatabasePrefix t1Blocking = getDatabasePrefix t1DataSync"
    "getMigratingTenantBlocker (getDatabasePrefix t1DataSync) quietNode = None"
    by (simp_all add: example_defs getMigratingTenantBlocker_def)
  from role_paths_agree [OF this] show ?thesis
    by (simp add: t1DataSync_def)
qed

text \<open>
  Claim C4. On a replica, for a record in state \<open>kBlocking\<close> that has a block timestamp
  \<open>T\<close>: when the tenant has an access blocker already, \<open>onTransitionToBlocking\<close> fails the
  invariant \<^verbatim>\<open>!mtab\<close>. When it has none, a new blocker is made at an address not handed out
  before, it is added to the registry, then \<open>startBlockingWrites\<close> and
  \<open>startBlockingReadsAfter\<close> are called on it, in this order, and no other blocker changes;
  replaying the record once more, on the state reached, fails the invariant.
\<close>

theorem replica_apply_needs_no_blocker:
  assumes "\<not> writesAreReplicated opCtx"
    and "getState donorDoc = kBlocking"
    and "getBlockTimestamp donorDoc = Some T"
  shows "(getMigratingTenantBlocker (getDatabasePrefix donorDoc) s \<noteq> None \<longrightarrow>
           onTransitionToBlocking opCtx donorDoc s = Abort (InvariantFailure ''!mtab'')) \<and>
         (getMigratingTenantBlocker (getDatabasePrefix donorDoc) s = None \<longrightarrow>
           (\<exists>s'. onTransitionToBlocking opCtx donorDoc s = Done () s' \<and>
              mtabByPrefix s' = (mtabByPrefix s)(getDatabasePrefix donorDoc \<mapsto> nextAddr s) \<and>
              heap s' = (heap s)
                (nextAddr s := \<lparr>writesBlocked = True, readsBlockedAfter = Some T\<rparr>) \<and>
              nextAddr s' = Suc (nextAddr s) \<and>
              trace s' = trace s @
                [EvAdd (getDatabasePrefix donorDoc) (nextAddr s),
                 EvStartBlockingWrites (nextAddr s),
                 EvStartBlockingReadsAfter (nextAddr s) T] \<and>
              onTransitionToBlocking opCtx donorDoc s' = Abort (InvariantFailure ''!mtab'')))"
  using assms by (simp add: onTransitionToBlocking_def blocker_defs)

theorem replica_apply_needs_no_blocker_witness:
  "(\<exists>s'. onTransitionToBlocking replicaCtx t1Blocking quietNode = Done () s' \<and>
      mtabByPrefix s' ''t1'' = Some 0 \<and>
      heap s' 0 = \<lparr>writesBlocked = True, readsBlockedAfter = Some 100\<rparr> \<and>
      trace s' =
        [EvAdd ''t1'' 0, EvStartBlockingWrites 0, EvStartBlockingReadsAfter 0 100] \<and>
      onTransitionToBlocking replicaCtx t1Blocking s' = Abort (InvariantFailure ''!mtab'')) \<and>
   onTransitionToBlocking replicaCtx t1Blocking (afterBlock ''t1'' quietNode) =
     Abort (InvariantFailure ''!mtab'')"
proof -
  have h: "\<not> writesAreReplicated replicaCtx" "getState t1Blocking = kBlocking"
    "getBlockTimestamp t1Blocking = Some 100"
    by (simp_all add: example_defs)
  have "getMigratingTenantBlocker (getDatabasePrefix t1Blocking) quietNode = None"
    "getMigratingTenantBlocker (getDatabasePrefix t1Blocking) (afterBlock ''t1'' quietNode) \<noteq> None"
    by (simp_all add: example_defs getMigratingTenantBlocker_def)
  then show ?thesis
    using replica_apply_needs_no_blocker [OF h, of quietNode]
      replica_apply_needs_no_blocker [OF h, of "afterBlock ''t1'' quietNode"]
    by (auto simp add: example_defs)
qed

subsection \<open>The invariants and the dispatch of the op observer\<close>

text \<open>
  Claim C5. \<open>onTransitionToBlocking\<close> fails an invariant, and so ends the process, for every
  record whose state is not \<open>kBlocking\<close> and for every record in state \<open>kBlocking\<close>
  without block timestamp, also when it is reached through
  \<open>onTenantMigrationDonorStateTransition\<close>. The op observer enters it for records in state
  \<open>kBlocking\<close> only. Whenever \<open>onTransitionToBlocking\<close> does not end the process, the
  record is in state \<open>kBlocking\<close> and has a block timestamp.
\<close>

theorem onTransitionToBlocking_entry_invariants:
  "(getState donorDoc \<noteq> kBlocking \<longrightarrow>
      onTransitionToBlocking opCtx donorDoc s =
        Abort (InvariantFailure
          ''donorDoc.getState() == TenantMigrationDonorStateEnum::kBlocking'')) \<and>
   (getState donorDoc = kBlocking \<and> getBlockTimestamp donorDoc = None \<longrightarrow>
      onTransitionToBlocking opCtx donorDoc s =
        Abort (InvariantFailure ''donorDoc.getBlockTimestamp()'') \<and>
      onTenantMigrationDonorStateTransition opCtx (toBSON donorDoc) s =
        Abort (InvariantFailure ''donorDoc.getBlockTimestamp()'')) \<and>
   (getState donorDoc = kBlocking \<longrightarrow>
      onTenantMigrationDonorStateTransition opCtx (toBSON donorDoc) s =
        onTransitionToBlocking opCtx donorDoc s) \<and>
   (getState donorDoc \<noteq> kBlocking \<longrightarrow>
      onTenantMigrationDonorStateTransition opCtx (toBSON donorDoc) s = Done () s \<or>
      onTenantMigrationDonorStateTransition opCtx (toBSON donorDoc) s = Abort Unreachable) \<and>
   (\<not> isAbort (onTransitionToBlocking opCtx donorDoc s) \<longrightarrow>
      getState donorDoc = kBlocking \<and> getBlockTimestamp donorDoc \<noteq> None)"
proof -
  have wrong_state: "onTransitionToBlocking opCtx donorDoc s =
      Abort (InvariantFailure
        ''donorDoc.getState() == TenantMigrationDonorStateEnum::kBlocking'')"
    if "getState donorDoc \<noteq> kBlocking"
    using that by (simp add: onTransitionToBlocking_def andThen_def invariant_def)
  have no_timestamp: "onTransitionToBlocking opCtx donorDoc s =
      Abort (InvariantFailure ''donorDoc.getBlockTimestamp()'')"
    if "getState donorDoc = kBlocking" "getBlockTimestamp donorDoc = None"
    using that by (simp add: onTransitionToBlocking_def andThen_def invariant_def)
  have dispatch: "onTenantMigrationDonorStateTransition opCtx (toBSON donorDoc) s =
      onTransitionToBlocking opCtx donorDoc s"
    if "getState donorDoc = kBlocking"
    using that by (simp add: onTenantMigrationDonorStateTransition_def parse_def toBSON_def)
  have others: "onTenantMigrationDonorStateTransition opCtx (toBSON donorDoc) s = Done () s \<or>
      onTenantMigrationDonorStateTransition opCtx (toBSON donorDoc) s = Abort Unreachable"
    if "getState donorDoc \<noteq> kBlocking"
    using that
    by (cases "getState donorDoc")
       (simp_all add: onTenantMigrationDonorStateTransition_def parse_def toBSON_def)
  have entered: "getState donorDoc = kBlocking \<and> getBlockTimestamp donorDoc \<noteq> None"
    if "\<not> isAbort (onTransitionToBlocking opCtx donorDoc s)"
  proof (rule ccontr)
    assume "\<not> (getState donorDoc = kBlocking \<and> getBlockTimestamp donorDoc \<noteq> None)"
    then have "isAbort (onTransitionToBlocking opCtx donorDoc s)"
      using wrong_state no_timestamp by (cases "getState donorDoc = kBlocking") auto
    with that show False by simp
  qed
  from wrong_state no_timestamp dispatch others entered show ?thesis
    by metis
qed

theorem onTransitionToBlocking_entry_invariants_witness:
  "onTransitionToBlocking replicaCtx t1DataSync quietNode =
     Abort (InvariantFailure
       ''donorDoc.getState() == TenantMigrationDonorStateEnum::kBlocking'') \<and>
   onTransitionToBlocking replicaCtx t1BlockingNoTimestamp quietNode =
     Abort (InvariantFailure ''donorDoc.getBlockTimestamp()'') \<and>
   onTenantMigrationDonorStateTransition replicaCtx (toBSON t1BlockingNoTimestamp) quietNode =
     Abort (InvariantFailure ''donorDoc.getBlockTimestamp()'')"
proof -
  have a: "getState t1DataSync \<noteq> kBlocking"
    and b: "getState t1BlockingNoTimestamp = kBlocking \<and>
      getBlockTimestamp t1BlockingNoTimestamp = None"
    by (simp_all add: example_defs)
  from onTransitionToBlocking_entry_invariants
         [of t1DataSync replicaCtx quietNode, THEN conjunct1, rule_format, OF a]
    onTransitionToBlocking_entry_invariants
         [of t1BlockingNoTimestamp replicaCtx quietNode, THEN conjunct2, THEN conjunct1,
          rule_format, OF b]
  show ?thesis by simp
qed

text \<open>
  Claim C10. For a record in state \<open>kDataSync\<close>, \<open>kCommitted\<close> or \<open>kAborted\<close>,
  \<open>onTenantMigrationDonorStateTransition\<close> returns normally and the state of the node, with
  the registry and every access blocker, is unchanged. For a state outside the four
  enumerants it ends the process as unreachable. Only a record in state \<open>kBlocking\<close> can
  change the state of the node.
\<close>

theorem other_states_change_nothing:
  "(getState (parse doc) = kDataSync \<or> getState (parse doc) = kCommitted \<or>
    getState (parse doc) = kAborted \<longrightarrow>
      onTenantMigrationDonorStateTransition opCtx doc s = Done () s) \<and>
   (getState (parse doc) = kOutOfRange n \<longrightarrow>
      onTenantMigrationDonorStateTransition opCtx doc s = Abort Unreachable) \<and>
   (\<forall>s'. onTenantMigrationDonorStateTransition opCtx doc s = Done () s' \<and> s' \<noteq> s \<longrightarrow>
      getState (parse doc) = kBlocking)"
  by (cases "getState (parse doc)")
     (auto simp add: onTenantMigrationDonorStateTransition_def)

theorem other_states_change_nothing_witness:
  "onTenantMigrationDonorStateTransition replicaCtx (toBSON t1DataSync) quietNode =
     Done () quietNode \<and>
   onTenantMigrationDonorStateTransition replicaCtx (toBSON t1Committed) quietNode =
     Done () quietNode \<and>
   onTenantMigrationDonorStateTransition primaryCtx
     (toBSON (t1Committed\<lparr>getState := kAborted\<rparr>)) quietNode = Done () quietNode \<and>
   onTenantMigrationDonorStateTransition replicaCtx
     (toBSON (t1Committed\<lparr>getState := kOutOfRange 4\<rparr>)) quietNode = Abort Unreachable"
  using other_states_change_nothing
      [where doc = "toBSON t1DataSync" and opCtx = replicaCtx and s = quietNode and n = 4]
    other_states_change_nothing
      [where doc = "toBSON t1Committed" and opCtx = replicaCtx and s = quietNode and n = 4]
    other_states_change_nothing
      [where doc = "toBSON (t1Committed\<lparr>getState := kAborted\<rparr>)" and opCtx = primaryCtx
         and s = quietNode and n = 4]
    other_states_change_nothing
      [where doc = "toBSON (t1Committed\<lparr>getState := kOutOfRange 4\<rparr>)" and opCtx = replicaCtx
         and s = quietNode and n = 4]
  by (simp add: example_defs parse_def toBSON_def)

end
